theory Spec2Isabelle
  imports Main "HOL-Library.Multiset"
begin

section \<open>JavaScript values\<close>

text \<open>
  An optional or nullable string of the source (\<^verbatim>\<open>string | undefined\<close>,
  \<^verbatim>\<open>string | null\<close>) is a \<open>string option\<close>: every field of the declared
  types has one absent form only, which is \<open>None\<close>.  The conditions of the source test
  truthiness: an absent value and the empty string are both falsy.
\<close>

definition truthy :: "string option \<Rightarrow> bool" where
  "truthy v = (case v of None \<Rightarrow> False | Some s \<Rightarrow> s \<noteq> [])"

text \<open>\<^verbatim>\<open>a || b\<close> on optional strings.\<close>

definition js_or :: "string option \<Rightarrow> string option \<Rightarrow> string option" where
  "js_or a b = (if truthy a then a else b)"

text \<open>
  \<^verbatim>\<open>String.prototype.trim\<close> strips white space and line terminators from both ends.
  On the code units below 256 these are tab, line feed, vertical tab, form feed, carriage
  return, space and the no-break space.
\<close>

definition isWhiteSpace :: "char \<Rightarrow> bool" where
  "isWhiteSpace c = (of_char c \<in> {9, 10, 11, 12, 13, 32, 160 :: nat})"

definition trim :: "string \<Rightarrow> string" where
  "trim s = rev (dropWhile isWhiteSpace (rev (dropWhile isWhiteSpace s)))"

text \<open>
  \<^verbatim>\<open>Array.prototype.sort(cmp)\<close>: a stable sort.  The compare function returns a number,
  \<open>None\<close> standing for \<^verbatim>\<open>NaN\<close>, which \<^verbatim>\<open>sort\<close> reads as \<open>0\<close>.  An element moves
  behind its neighbour exactly when the comparison is positive.  With a compare function
  that is not consistent (one that answers \<^verbatim>\<open>NaN\<close> for some pairs only) the language
  leaves the order to the implementation; the model then gives the order of this
  insertion sort, and nothing is proved about it.
\<close>

fun js_insert :: "('a \<Rightarrow> 'a \<Rightarrow> int option) \<Rightarrow> 'a \<Rightarrow> 'a list \<Rightarrow> 'a list" where
  "js_insert cmp x [] = [x]"
| "js_insert cmp x (y # ys) =
     (if (case cmp x y of None \<Rightarrow> False | Some d \<Rightarrow> 0 < d)
      then y # js_insert cmp x ys else x # y # ys)"

definition js_sort :: "('a \<Rightarrow> 'a \<Rightarrow> int option) \<Rightarrow> 'a list \<Rightarrow> 'a list" where
  "js_sort cmp xs = foldr (js_insert cmp) xs []"

section \<open>Data model\<close>

datatype origin = Customer | Agent | Bot

text \<open>
  The \<^verbatim>\<open>Message\<close> type of the client.  A message without a creation timestamp is pending,
  one with a creation timestamp is confirmed.  The field \<^verbatim>\<open>type\<close> is \<open>msg_type\<close> here.
\<close>

record Message =
  body :: "string option"
  file_ids :: "string list option"
  msg_type :: "origin option"
  customer_id :: "string option"
  sent_at :: "string option"
  created_at :: "string option"
  seen_at :: "string option"

text \<open>
  An object spread into a message (\<^verbatim>\<open>{...overrides}\<close>): for every key, \<open>None\<close> when the
  object does not have the key, \<open>Some v\<close> when it has it with the value \<open>v\<close> (which may
  itself be \<^verbatim>\<open>undefined\<close>).
\<close>

record Overrides =
  ov_body :: "string option option"
  ov_file_ids :: "string list option option"
  ov_msg_type :: "origin option option"
  ov_customer_id :: "string option option"
  ov_sent_at :: "string option option"
  ov_created_at :: "string option option"
  ov_seen_at :: "string option option"

definition no_overrides :: Overrides where
  "no_overrides = \<lparr>ov_body = None, ov_file_ids = None, ov_msg_type = None,
     ov_customer_id = None, ov_sent_at = None, ov_created_at = None, ov_seen_at = None\<rparr>"

definition spread :: "Overrides \<Rightarrow> Message \<Rightarrow> Message" where
  "spread ov m =
     \<lparr>body = (case ov_body ov of None \<Rightarrow> body m | Some v \<Rightarrow> v),
      file_ids = (case ov_file_ids ov of None \<Rightarrow> file_ids m | Some v \<Rightarrow> v),
      msg_type = (case ov_msg_type ov of None \<Rightarrow> msg_type m | Some v \<Rightarrow> v),
      customer_id = (case ov_customer_id ov of None \<Rightarrow> customer_id m | Some v \<Rightarrow> v),
      sent_at = (case ov_sent_at ov of None \<Rightarrow> sent_at m | Some v \<Rightarrow> v),
      created_at = (case ov_created_at ov of None \<Rightarrow> created_at m | Some v \<Rightarrow> v),
      seen_at = (case ov_seen_at ov of None \<Rightarrow> seen_at m | Some v \<Rightarrow> v)\<rparr>"

record Account =
  is_outside_working_hours :: "bool option"

text \<open>The field \<^verbatim>\<open>greeting\<close> of the widget settings is \<open>ws_greeting\<close> here.\<close>

record WidgetSettings =
  ws_greeting :: "string option"
  away_message :: "string option"
  account :: "Account option"

record CustomerMetadata =
  external_id :: "string option"
  email :: "string option"
  host :: "string option"

text \<open>The fields \<^verbatim>\<open>id\<close> and \<^verbatim>\<open>messages\<close> of a conversation record of the backend.\<close>

record Conversation =
  conv_id :: string
  conv_messages :: "Message list option"

text \<open>
  The configuration.  A callback of the embedding page is a flag (is it configured); calling
  it is an observable effect.  The initial-message generator is a callback too, whose
  result the client uses: it is given the overrides, and what it returns may depend on the
  moment it is called (it may read the clock as the client does), so it is a function of
  the reading of the clock at the call and of the overrides.
\<close>

record Config =
  accountId :: string
  config_customerId :: "string option"
  baseUrl :: "string option"
  greeting :: "string option"
  awayMessage :: "string option"
  customer :: "CustomerMetadata option"
  debug :: "bool option"
  setInitialMessage :: "(string \<Rightarrow> Overrides \<Rightarrow> Message list) option"
  onSetCustomerId :: bool
  onSetConversationId :: bool
  onSetWidgetSettings :: bool
  onMessageCreated :: bool
  onMessagesUpdated :: bool

section \<open>Collaborators: transport, backend, storage, logger\<close>

text \<open>The three topics the client opens channels on.\<close>

datatype topic = RoomTopic string | LobbyTopic string | ConversationTopic string

fun topic_name :: "topic \<Rightarrow> string" where
  "topic_name (RoomTopic account_id) = ''room:'' @ account_id"
| "topic_name (LobbyTopic cid) = ''conversation:lobby:'' @ cid"
| "topic_name (ConversationTopic conv) = ''conversation:'' @ conv"

fun is_conversation :: "topic \<Rightarrow> bool" where
  "is_conversation (ConversationTopic _) = True"
| "is_conversation _ = False"

text \<open>
  A channel object of the transport: \<^verbatim>\<open>socket.channel(topic, params)\<close> makes a new one
  on every call, told apart by its handle.
\<close>

record Channel =
  handle :: nat
  topic :: topic
  param_customer_id :: "string option"

datatype level = Debug | Warn | Error

datatype request =
    IsValidCustomer string string "string option"
  | FindCustomerByExternalId string string "string option" "string option" "string option"
  | CreateNewCustomer string CustomerMetadata "string option"
  | UpdateCustomerMetadata string CustomerMetadata "string option"
  | CreateNewConversation string string "string option"
  | FetchCustomerConversations string string "string option"
  | FetchWidgetSettings string "string option"

datatype callback =
    OnSetCustomerId "string option"
  | OnSetConversationId string
  | OnSetWidgetSettings WidgetSettings
  | OnMessageCreated Message
  | OnMessagesUpdated "Message list"

text \<open>What the session does to the world around it, in the order it does it.\<close>

datatype effect =
    SocketConnect
  | SocketDisconnect
  | PresenceOnSync Channel
  | ChannelOn Channel string
  | ChannelJoin Channel
  | ChannelLeave Channel
  | ChannelPush Channel string "Message option"
  | Request request
  | Notify callback
  | DispatchEvent string "string option"
  | StorageSetCustomerId string
  | StorageRemoveCustomerId
  | Log level string

datatype error = RequestFailed

text \<open>
  The backend, as the answers its request functions give.  The first argument is the number
  of effects of the session so far, so that the same request may be answered differently
  when it is made again; \<open>Inl\<close> is a rejected promise.
\<close>

record API =
  api_isValidCustomer :: "nat \<Rightarrow> string \<Rightarrow> string \<Rightarrow> string option \<Rightarrow> error + bool"
  api_findCustomerByExternalId ::
    "nat \<Rightarrow> string \<Rightarrow> string \<Rightarrow> string option \<times> string option \<Rightarrow> string option
      \<Rightarrow> error + string option"
  api_createNewCustomer :: "nat \<Rightarrow> string \<Rightarrow> CustomerMetadata \<Rightarrow> string option \<Rightarrow> error + string"
  api_updateCustomerMetadata ::
    "nat \<Rightarrow> string \<Rightarrow> CustomerMetadata \<Rightarrow> string option \<Rightarrow> error + string"
  api_createNewConversation :: "nat \<Rightarrow> string \<Rightarrow> string \<Rightarrow> string option \<Rightarrow> error + string"
  api_fetchCustomerConversations ::
    "nat \<Rightarrow> string \<Rightarrow> string \<Rightarrow> string option \<Rightarrow> error + Conversation list"
  api_fetchWidgetSettings :: "nat \<Rightarrow> string \<Rightarrow> string option \<Rightarrow> error + WidgetSettings option"

section \<open>The session\<close>

record Papercups =
  config :: Config
  debugModeEnabled :: bool
  customerId :: "string option"
  conversationId :: "string option"
  messages :: "Message list"
  settings :: WidgetSettings
  channel :: "Channel option"
  next_handle :: nat
  effects :: "effect list"

definition emit :: "effect \<Rightarrow> Papercups \<Rightarrow> Papercups" where
  "emit e s = s\<lparr>effects := effects s @ [e]\<rparr>"

text \<open>The logger: \<^verbatim>\<open>debug\<close> prints in debug mode only, \<^verbatim>\<open>warn\<close> and \<^verbatim>\<open>error\<close> always.\<close>

definition logger_debug :: "string \<Rightarrow> Papercups \<Rightarrow> Papercups" where
  "logger_debug msg s = (if \<not> debugModeEnabled s then s else emit (Log Debug msg) s)"

definition logger_warn :: "string \<Rightarrow> Papercups \<Rightarrow> Papercups" where
  "logger_warn msg s = emit (Log Warn msg) s"

definition logger_error :: "string \<Rightarrow> Papercups \<Rightarrow> Papercups" where
  "logger_error msg s = emit (Log Error msg) s"

text \<open>
  The constructor.  \<open>isDev\<close> is what the helper of that name answers for the window, and
  \<open>cached\<close> what the storage holds.
\<close>

definition init :: "bool \<Rightarrow> string option \<Rightarrow> Config \<Rightarrow> Papercups" where
  "init isDev cached cfg =
     \<lparr>config = cfg,
      debugModeEnabled = (isDev \<or> (case debug cfg of None \<Rightarrow> False | Some d \<Rightarrow> d)),
      customerId = js_or (js_or (config_customerId cfg) cached) None,
      conversationId = None,
      messages = [],
      settings = \<lparr>ws_greeting = None, away_message = None, account = None\<rparr>,
      channel = None,
      next_handle = 0,
      effects = []\<rparr>"

section \<open>Setters\<close>

definition setMessages :: "Message list \<Rightarrow> Papercups \<Rightarrow> Papercups" where
  "setMessages msgs s =
     (let s1 = s\<lparr>messages := msgs\<rparr>
      in if onMessagesUpdated (config s1) then emit (Notify (OnMessagesUpdated msgs)) s1
         else s1)"

definition cacheCustomerId :: "string option \<Rightarrow> Papercups \<Rightarrow> Papercups" where
  "cacheCustomerId cid s =
     (let s1 = logger_debug ''Caching customer ID:'' s
      in case cid of
           None \<Rightarrow> emit StorageRemoveCustomerId s1
         | Some c \<Rightarrow>
             if c = [] then emit StorageRemoveCustomerId s1
             else emit (StorageSetCustomerId c) s1)"

definition setWidgetSettings :: "WidgetSettings \<Rightarrow> Papercups \<Rightarrow> Papercups" where
  "setWidgetSettings st s =
     (let s1 = s\<lparr>settings := st\<rparr>
      in if onSetWidgetSettings (config s1) then emit (Notify (OnSetWidgetSettings st)) s1
         else s1)"

definition setCustomerId :: "string option \<Rightarrow> Papercups \<Rightarrow> Papercups" where
  "setCustomerId cid s =
     (let s1 = s\<lparr>customerId := cid\<rparr>;
          s2 = cacheCustomerId cid s1;
          s3 = emit (DispatchEvent ''papercups:customer:set'' cid) s2
      in if onSetCustomerId (config s3) then emit (Notify (OnSetCustomerId cid)) s3 else s3)"

text \<open>
  Joining a conversation channel.  The replies of the transport to \<^verbatim>\<open>join\<close> only print
  to the debug log, later; they are not part of the call.
\<close>

definition joinConversationChannel :: "string \<Rightarrow> string option \<Rightarrow> Papercups \<Rightarrow> Papercups" where
  "joinConversationChannel conv fallbackCustomerId s =
     (let s1 = (case channel s of None \<Rightarrow> s | Some c \<Rightarrow> emit (ChannelLeave c) s);
          cid = js_or (customerId s1) fallbackCustomerId;
          s2 = logger_debug ''Joining channel:'' s1;
          c' = \<lparr>handle = next_handle s2, topic = ConversationTopic conv,
                 param_customer_id = cid\<rparr>;
          s3 = s2\<lparr>channel := Some c', next_handle := Suc (next_handle s2)\<rparr>;
          s4 = emit (ChannelOn c' ''shout'') s3
      in emit (ChannelJoin c') s4)"

definition setConversationId :: "string \<Rightarrow> Papercups \<Rightarrow> Papercups" where
  "setConversationId conv s =
     (let s1 = s\<lparr>conversationId := Some conv\<rparr>;
          s2 = joinConversationChannel conv None s1
      in if onSetConversationId (config s2) then emit (Notify (OnSetConversationId conv)) s2
         else s2)"

text \<open>
  Opening the connection: the socket connects, and the session joins the room of the
  account and listens to its presence.
\<close>

definition listenForAgentAvailability :: "Papercups \<Rightarrow> Papercups" where
  "listenForAgentAvailability s =
     (let room = \<lparr>handle = next_handle s, topic = RoomTopic (accountId (config s)),
                   param_customer_id = None\<rparr>;
          s1 = s\<lparr>next_handle := Suc (next_handle s)\<rparr>;
          s2 = emit (ChannelJoin room) s1
      in emit (PresenceOnSync room) s2)"

definition connect :: "Papercups \<Rightarrow> Papercups" where
  "connect s = listenForAgentAvailability (emit SocketConnect s)"

definition disconnect :: "Papercups \<Rightarrow> Papercups" where
  "disconnect s =
     (let s1 = emit SocketDisconnect s
      in case channel s1 of None \<Rightarrow> s1 | Some c \<Rightarrow> emit (ChannelLeave c) s1)"

definition listenForNewConversations :: "string \<Rightarrow> Papercups \<Rightarrow> Papercups" where
  "listenForNewConversations cid s =
     (let c = \<lparr>handle = next_handle s, topic = LobbyTopic cid, param_customer_id = None\<rparr>;
          s1 = s\<lparr>next_handle := Suc (next_handle s)\<rparr>;
          s2 = emit (ChannelOn c ''conversation:created'') s1
      in emit (ChannelJoin c) s2)"

section \<open>Requests to the backend\<close>

definition createNewConversation ::
  "API \<Rightarrow> string \<Rightarrow> Papercups \<Rightarrow> (error + string) \<times> Papercups" where
  "createNewConversation api cid s =
     (api_createNewConversation api (length (effects s)) (accountId (config s)) cid
        (baseUrl (config s)),
      emit (Request (CreateNewConversation (accountId (config s)) cid (baseUrl (config s)))) s)"

definition updateCustomerMetadata ::
  "API \<Rightarrow> string \<Rightarrow> CustomerMetadata \<Rightarrow> Papercups \<Rightarrow> (error + string) \<times> Papercups" where
  "updateCustomerMetadata api cid metadata s =
     (api_updateCustomerMetadata api (length (effects s)) cid metadata (baseUrl (config s)),
      emit (Request (UpdateCustomerMetadata cid metadata (baseUrl (config s)))) s)"

definition createNewCustomer ::
  "API \<Rightarrow> CustomerMetadata \<Rightarrow> Papercups \<Rightarrow> (error + string) \<times> Papercups" where
  "createNewCustomer api metadata s =
     (api_createNewCustomer api (length (effects s)) (accountId (config s)) metadata
        (baseUrl (config s)),
      emit (Request (CreateNewCustomer (accountId (config s)) metadata (baseUrl (config s)))) s)"

definition isValidCustomer ::
  "API \<Rightarrow> string \<Rightarrow> Papercups \<Rightarrow> (error + bool) \<times> Papercups" where
  "isValidCustomer api cid s =
     (api_isValidCustomer api (length (effects s)) cid (accountId (config s))
        (baseUrl (config s)),
      emit (Request (IsValidCustomer cid (accountId (config s)) (baseUrl (config s)))) s)"

definition findCustomerByExternalId ::
  "API \<Rightarrow> string \<Rightarrow> string option \<times> string option \<Rightarrow> Papercups
    \<Rightarrow> (error + string option) \<times> Papercups" where
  "findCustomerByExternalId api externalId filters s =
     (api_findCustomerByExternalId api (length (effects s)) externalId (accountId (config s))
        filters (baseUrl (config s)),
      emit (Request (FindCustomerByExternalId externalId (accountId (config s))
        (fst filters) (snd filters) (baseUrl (config s)))) s)"

definition fetchLatestCustomerConversation ::
  "API \<Rightarrow> string \<Rightarrow> Papercups \<Rightarrow> (error + Conversation option) \<times> Papercups" where
  "fetchLatestCustomerConversation api cid s =
     (let r = api_fetchCustomerConversations api (length (effects s)) cid
                (accountId (config s)) (baseUrl (config s));
          s1 = emit (Request (FetchCustomerConversations cid (accountId (config s))
                (baseUrl (config s)))) s
      in case r of
           Inl e \<Rightarrow> (Inl e, s1)
         | Inr conversations \<Rightarrow>
             (Inr (case conversations of [] \<Rightarrow> None | latest # _ \<Rightarrow> Some latest),
              logger_debug ''Found existing conversations:'' s1))"

text \<open>The settings of the widget: the empty record when there are none or the request fails.\<close>

definition fetchWidgetSettings :: "API \<Rightarrow> Papercups \<Rightarrow> WidgetSettings \<times> Papercups" where
  "fetchWidgetSettings api s =
     (let empty = \<lparr>ws_greeting = None, away_message = None, account = None\<rparr>
      in (case api_fetchWidgetSettings api (length (effects s)) (accountId (config s))
                 (baseUrl (config s)) of
            Inl err \<Rightarrow> empty
          | Inr None \<Rightarrow> empty
          | Inr (Some st) \<Rightarrow> st,
          emit (Request (FetchWidgetSettings (accountId (config s)) (baseUrl (config s)))) s))"

section \<open>Customers\<close>

definition createOrUpdateCustomer ::
  "API \<Rightarrow> string option \<Rightarrow> CustomerMetadata \<Rightarrow> Papercups \<Rightarrow> (error + string) \<times> Papercups" where
  "createOrUpdateCustomer api existingCustomerId metadata s =
     (case (case existingCustomerId of
              None \<Rightarrow> createNewCustomer api metadata s
            | Some c \<Rightarrow>
                if c = [] then createNewCustomer api metadata s
                else updateCustomerMetadata api c metadata s) of
        (Inr cid, s1) \<Rightarrow> (Inr cid, s1)
      | (Inl err, s1) \<Rightarrow>
          createNewCustomer api metadata
            (logger_error ''Retrying...''
              (logger_error ''Failed to update or create customer:'' s1)))"

definition initializeNewConversation ::
  "API \<Rightarrow> string option \<Rightarrow> string option \<Rightarrow> Papercups \<Rightarrow> (error + unit) \<times> Papercups" where
  "initializeNewConversation api existingCustomerId mail s =
     (let cust = (case customer (config s) of
                    None \<Rightarrow> \<lparr>external_id = None, email = None, host = None\<rparr>
                  | Some c \<Rightarrow> c);
          metadata = (if truthy mail then cust\<lparr>email := mail\<rparr> else cust)
      in case createOrUpdateCustomer api existingCustomerId metadata s of
           (Inl err, s1) \<Rightarrow> (Inl err, s1)
         | (Inr cid, s1) \<Rightarrow>
             (case createNewConversation api cid s1 of
                (Inl err, s2) \<Rightarrow> (Inl err, s2)
              | (Inr conv, s2) \<Rightarrow>
                  (Inr (), setConversationId conv (setCustomerId (Some cid) s2))))"

text \<open>
  Validation of a customer id.  \<open>isValidUuid\<close> is the helper of that name, which decides
  the format of an identifier.
\<close>

definition isValidCustomerId ::
  "(string \<Rightarrow> bool) \<Rightarrow> API \<Rightarrow> string option \<Rightarrow> Papercups \<Rightarrow> bool \<times> Papercups" where
  "isValidCustomerId isValidUuid api cid s =
     (case cid of
        None \<Rightarrow> (False, s)
      | Some c \<Rightarrow>
          if c = [] \<or> length c = 0 then (False, s)
          else if \<not> isValidUuid c then (False, s)
          else (case isValidCustomer api c s of
                  (Inr isValid, s1) \<Rightarrow> (isValid, s1)
                | (Inl err, s1) \<Rightarrow>
                    (True,
                     logger_warn ''You might be on an older version of Papercups.''
                       (logger_warn ''Failed to validate customer ID.'' s1))))"

definition findCustomerByMetadata ::
  "API \<Rightarrow> CustomerMetadata option \<Rightarrow> Papercups \<Rightarrow> (error + string option) \<times> Papercups" where
  "findCustomerByMetadata api metadata s =
     (case metadata of
        None \<Rightarrow> (Inr None, s)
      | Some m \<Rightarrow>
          (case external_id m of
             None \<Rightarrow> (Inr None, s)
           | Some externalId \<Rightarrow>
               if externalId = [] then (Inr None, s)
               else findCustomerByExternalId api externalId (email m, host m) s))"

definition checkForExistingCustomer ::
  "API \<Rightarrow> CustomerMetadata option \<Rightarrow> string option \<Rightarrow> Papercups
    \<Rightarrow> (error + string option) \<times> Papercups" where
  "checkForExistingCustomer api metadata defaultCustomerId s =
     (if (case metadata of None \<Rightarrow> True | Some m \<Rightarrow> \<not> truthy (external_id m))
      then (Inr defaultCustomerId, s)
      else case findCustomerByMetadata api metadata s of
             (Inl err, s1) \<Rightarrow> (Inl err, s1)
           | (Inr matchingCustomerId, s1) \<Rightarrow>
               if \<not> truthy matchingCustomerId then (Inr None, s1)
               else if matchingCustomerId = defaultCustomerId then (Inr defaultCustomerId, s1)
               else (Inr matchingCustomerId, s1))"

section \<open>Messages\<close>

text \<open>
  Marking the transcript as seen.  \<open>now i\<close> is the reading of the clock
  (\<^verbatim>\<open>new Date().toISOString()\<close>) taken for the message at position \<open>i\<close>.
\<close>

definition markMessagesAsSeen :: "(nat \<Rightarrow> string) \<Rightarrow> Papercups \<Rightarrow> Papercups" where
  "markMessagesAsSeen now s =
     (let s1 = (case channel s of
                  None \<Rightarrow> s
                | Some c \<Rightarrow> emit (ChannelPush c ''messages:seen'' None) s);
          msgs = map (\<lambda>(i, msg). if truthy (seen_at msg) then msg
                                  else msg\<lparr>seen_at := Some (now i)\<rparr>)
                   (enumerate 0 (messages s1))
      in setMessages msgs s1)"

text \<open>
  Sending a message.  \<open>sentAt\<close> is the reading of the clock taken for the send timestamp.
\<close>

definition sendNewMessage ::
  "API \<Rightarrow> string \<Rightarrow> Message \<Rightarrow> string option \<Rightarrow> Papercups \<Rightarrow> (error + unit) \<times> Papercups" where
  "sendNewMessage api sentAt message mail s =
     (let cid = customerId s;
          conv = conversationId s;
          body' = (case body message of None \<Rightarrow> [] | Some b \<Rightarrow> b);
          file_ids' = (case file_ids message of None \<Rightarrow> [] | Some f \<Rightarrow> f);
          isMissingBody = (body' = [] \<or> length (trim body') = 0);
          isMissingAttachments = (length file_ids' = 0);
          isInvalidMessage = (isMissingBody \<and> isMissingAttachments)
      in if isInvalidMessage then (Inr (), s)
         else
           let payload = message\<lparr>body := Some body', customer_id := cid,
                           msg_type := Some Customer, sent_at := Some sentAt\<rparr>;
               s1 = setMessages (messages s @ [payload]) s
           in case (if \<not> truthy cid \<or> \<not> truthy conv
                    then initializeNewConversation api cid mail s1 else (Inr (), s1)) of
                (Inl err, s2) \<Rightarrow> (Inl err, s2)
              | (Inr _, s2) \<Rightarrow>
                  (Inr (),
                   case channel s2 of
                     None \<Rightarrow> s2
                   | Some c \<Rightarrow>
                       emit (ChannelPush c ''shout''
                         (Some (message\<lparr>body := Some body', customer_id := customerId s2,
                                  sent_at := Some sentAt\<rparr>))) s2))"

text \<open>
  Reconciliation of a message event pushed by the server.  \<open>datesEqual\<close> is the helper
  \<^verbatim>\<open>areDatesEqual\<close>, which compares two send timestamps; \<open>isUnsent\<close> is the test
  that \<^verbatim>\<open>find\<close> applies to the entries of the transcript.
\<close>

definition isUnsent ::
  "(string option \<Rightarrow> string option \<Rightarrow> bool) \<Rightarrow> Message \<Rightarrow> Message \<Rightarrow> bool" where
  "isUnsent datesEqual message m =
     (\<not> truthy (created_at m) \<and>
      datesEqual (sent_at m) (sent_at message) \<and>
      (body m = body message \<or> (\<not> truthy (body m) \<and> \<not> truthy (body message))))"

definition handleMessageCreated ::
  "(string option \<Rightarrow> string option \<Rightarrow> bool) \<Rightarrow> Message \<Rightarrow> Papercups \<Rightarrow> Papercups" where
  "handleMessageCreated datesEqual message s =
     (let msgs = messages s;
          unsent = find (isUnsent datesEqual message) msgs;
          updated = (case unsent of
                       Some u \<Rightarrow> map (\<lambda>m. if sent_at m = sent_at u then message else m) msgs
                     | None \<Rightarrow> msgs @ [message])
      in setMessages updated s)"

text \<open>The handler of the event \<^verbatim>\<open>shout\<close> that the conversation channel registers.\<close>

definition onShout ::
  "(string option \<Rightarrow> string option \<Rightarrow> bool) \<Rightarrow> Message \<Rightarrow> Papercups \<Rightarrow> Papercups" where
  "onShout datesEqual message s =
     (let s1 = handleMessageCreated datesEqual message s
      in if onMessageCreated (config s1) then emit (Notify (OnMessageCreated message)) s1
         else s1)"

text \<open>
  Modelled from the spec: the helper \<^verbatim>\<open>areDatesEqual\<close> of the module \<^verbatim>\<open>utils\<close> is not
  among the sources.  The specification describes the comparison as the equality of the
  representation of the two timestamps.
\<close>

definition areDatesEqual :: "string option \<Rightarrow> string option \<Rightarrow> bool" where
  "areDatesEqual x y = (x = y)"

section \<open>Greeting and conversation resolution\<close>

text \<open>
  The greeting policy.  \<open>now\<close> is the reading of the clock at the invocation: the
  timestamp of the greeting message, and the moment the generator of the page is called.
\<close>

definition getDefaultGreeting :: "string \<Rightarrow> Overrides \<Rightarrow> Papercups \<Rightarrow> Message list" where
  "getDefaultGreeting now overrides s =
     (case setInitialMessage (config s) of
        Some generator \<Rightarrow> generator now overrides
      | None \<Rightarrow>
          let greeting' = js_or (greeting (config s)) (ws_greeting (settings s));
              awayMessage' = js_or (awayMessage (config s)) (away_message (settings s))
          in if \<not> truthy greeting' \<and> \<not> truthy awayMessage' then []
             else
               let hasAwayMessage = (truthy awayMessage' \<and>
                       0 < length (case awayMessage' of None \<Rightarrow> [] | Some a \<Rightarrow> a));
                   isOutsideWorkingHours =
                     (case account (settings s) of
                        None \<Rightarrow> False
                      | Some a \<Rightarrow> is_outside_working_hours a = Some True);
                   shouldDisplayAwayMessage = (hasAwayMessage \<and> isOutsideWorkingHours)
               in [spread overrides
                     \<lparr>body = (if shouldDisplayAwayMessage then awayMessage' else greeting'),
                      file_ids = None,
                      msg_type = Some Bot,
                      customer_id = Some ''bot'',
                      sent_at = None,
                      created_at = Some now,
                      seen_at = None\<rparr>])"

text \<open>The body of the greeting message: the away message or the greeting.\<close>

definition greetingBody :: "Papercups \<Rightarrow> string option" where
  "greetingBody s =
     (let greeting' = js_or (greeting (config s)) (ws_greeting (settings s));
          awayMessage' = js_or (awayMessage (config s)) (away_message (settings s))
      in if truthy awayMessage' \<and>
            (case account (settings s) of
               None \<Rightarrow> False
             | Some a \<Rightarrow> is_outside_working_hours a = Some True)
         then awayMessage' else greeting')"

text \<open>
  What an asynchronous method hands back: \<^verbatim>\<open>undefined\<close> after a caught exception, or a
  value.
\<close>

datatype 'a returned = Undefined | Returned 'a

text \<open>
  The compare function of the sort: \<open>dateMs\<close> is \<^verbatim>\<open>+new Date(x)\<close>, the platform's reading
  of a timestamp in milliseconds, \<open>None\<close> for \<^verbatim>\<open>NaN\<close>.
\<close>

definition compareCreatedAt ::
  "(string option \<Rightarrow> int option) \<Rightarrow> Message \<Rightarrow> Message \<Rightarrow> int option" where
  "compareCreatedAt dateMs a b =
     (case (dateMs (created_at a), dateMs (created_at b)) of
        (Some x, Some y) \<Rightarrow> Some (x - y)
      | _ \<Rightarrow> None)"

text \<open>The overrides \<^verbatim>\<open>{created_at: t, seen_at: t}\<close>.\<close>

definition pinnedOverrides :: "string option \<Rightarrow> Overrides" where
  "pinnedOverrides t = no_overrides\<lparr>ov_created_at := Some t, ov_seen_at := Some t\<rparr>"

definition fetchLatestConversation ::
  "API \<Rightarrow> (string option \<Rightarrow> int option) \<Rightarrow> string \<Rightarrow> string option \<Rightarrow> Papercups
    \<Rightarrow> Conversation option returned \<times> Papercups" where
  "fetchLatestConversation api dateMs now fallbackCustomerId s =
     (case js_or (customerId s) fallbackCustomerId of
        None \<Rightarrow> (Returned None, setMessages (getDefaultGreeting now no_overrides s) s)
      | Some cid \<Rightarrow>
          if cid = [] then (Returned None, setMessages (getDefaultGreeting now no_overrides s) s)
          else
            (case fetchLatestCustomerConversation api cid
                   (logger_debug ''Fetching conversations for customer:'' s) of
              (Inl err, s1) \<Rightarrow> (Undefined, logger_debug ''Error fetching conversations!'' s1)
            | (Inr None, s1) \<Rightarrow>
                (Returned None,
                 listenForNewConversations cid
                   (setMessages (getDefaultGreeting now no_overrides s1) s1))
            | (Inr (Some conversation), s1) \<Rightarrow>
                let msgs = (case conv_messages conversation of None \<Rightarrow> [] | Some ms \<Rightarrow> ms);
                    formattedMessages = js_sort (compareCreatedAt dateMs) msgs;
                    initialMessageCreatedAt =
                      (case formattedMessages of [] \<Rightarrow> None | m # _ \<Rightarrow> created_at m);
                    s2 = setConversationId (conv_id conversation) s1;
                    s3 = setMessages
                           (getDefaultGreeting now (pinnedOverrides initialMessageCreatedAt) s2
                            @ formattedMessages) s2
                in (Returned (Some (conversation\<lparr>conv_messages :=
                      map_option (\<lambda>_. formattedMessages) (conv_messages conversation)\<rparr>)),
                    s3)))"

text \<open>
  Starting the session.  A failed lookup of the customer by the metadata rejects the start.
\<close>

definition start ::
  "(string \<Rightarrow> bool) \<Rightarrow> API \<Rightarrow> (string option \<Rightarrow> int option) \<Rightarrow> string \<Rightarrow> Papercups
    \<Rightarrow> (error + Conversation option returned) \<times> Papercups" where
  "start isValidUuid api dateMs now s =
     (let s1 = connect s;
          (st, s2) = fetchWidgetSettings api s1;
          (isValid, s3) = isValidCustomerId isValidUuid api (customerId s2) s2;
          validatedCustomerId = (if isValid then customerId s3 else None);
          metadata = (case customer (config s3) of
                        None \<Rightarrow> \<lparr>external_id = None, email = None, host = None\<rparr>
                      | Some c \<Rightarrow> c)
      in case checkForExistingCustomer api (Some metadata) validatedCustomerId s3 of
           (Inl err, s4) \<Rightarrow> (Inl err, s4)
         | (Inr cid, s4) \<Rightarrow>
             (case fetchLatestConversation api dateMs now cid
                     (setCustomerId cid (setWidgetSettings st s4)) of
                (r, s5) \<Rightarrow> (Inr r, s5)))"

text \<open>
  The creation time of a message in milliseconds, the key that the specification sorts a
  conversation by.
\<close>

definition createdAtMs :: "(string option \<Rightarrow> int option) \<Rightarrow> Message \<Rightarrow> int" where
  "createdAtMs dateMs m = (case dateMs (created_at m) of None \<Rightarrow> 0 | Some x \<Rightarrow> x)"

section \<open>Which channels are joined\<close>

text \<open>
  The channels joined after a sequence of effects: \<^verbatim>\<open>join\<close> adds the channel,
  \<^verbatim>\<open>leave\<close> removes it.
\<close>

fun track :: "effect \<Rightarrow> Channel list \<Rightarrow> Channel list" where
  "track (ChannelJoin c) js = (if c \<in> set js then js else js @ [c])"
| "track (ChannelLeave c) js = removeAll c js"
| "track e js = js"

definition joined_channels :: "effect list \<Rightarrow> Channel list" where
  "joined_channels es = fold track es []"

definition conversation_channels :: "effect list \<Rightarrow> Channel list" where
  "conversation_channels es = filter (\<lambda>c. is_conversation (topic c)) (joined_channels es)"

text \<open>
  The same, checked along the sequence: starting with the channels \<open>js\<close> joined, at most
  one conversation channel is joined before and after every effect.
\<close>

fun single_from :: "Channel list \<Rightarrow> effect list \<Rightarrow> bool" where
  "single_from js [] = (length (filter (\<lambda>c. is_conversation (topic c)) js) \<le> 1)"
| "single_from js (e # es) =
     (length (filter (\<lambda>c. is_conversation (topic c)) js) \<le> 1 \<and> single_from (track e js) es)"

text \<open>
  The invariant of a session: at most one conversation channel was joined at every point
  so far, and a conversation channel that is joined now is the one the session holds.
\<close>

definition session_ok :: "Papercups \<Rightarrow> bool" where
  "session_ok s =
     (single_from [] (effects s) \<and>
      set (conversation_channels (effects s)) \<subseteq> set_option (channel s))"

text \<open>
  The sessions: what the constructor makes, and what the operations of the client make of
  a session, in any order and with any arguments, backend and clock.
\<close>

inductive session :: "Papercups \<Rightarrow> bool" where
  session_init: "session (init isDev cached cfg)"
| session_start: "session s \<Longrightarrow> session (snd (start isValidUuid api dateMs now s))"
| session_connect: "session s \<Longrightarrow> session (connect s)"
| session_setWidgetSettings: "session s \<Longrightarrow> session (setWidgetSettings st s)"
| session_setMessages: "session s \<Longrightarrow> session (setMessages msgs s)"
| session_setCustomerId: "session s \<Longrightarrow> session (setCustomerId cid s)"
| session_setConversationId: "session s \<Longrightarrow> session (setConversationId conv s)"
| session_disconnect: "session s \<Longrightarrow> session (disconnect s)"
| session_listenForNewConversations:
    "session s \<Longrightarrow> session (listenForNewConversations cid s)"
| session_initializeNewConversation:
    "session s \<Longrightarrow> session (snd (initializeNewConversation api existing mail s))"
| session_isValidCustomerId:
    "session s \<Longrightarrow> session (snd (isValidCustomerId isValidUuid api cid' s))"
| session_checkForExistingCustomer:
    "session s \<Longrightarrow> session (snd (checkForExistingCustomer api metadata dflt s))"
| session_markMessagesAsSeen: "session s \<Longrightarrow> session (markMessagesAsSeen clock s)"
| session_sendNewMessage:
    "session s \<Longrightarrow> session (snd (sendNewMessage api sentAt message mail s))"
| session_onShout: "session s \<Longrightarrow> session (onShout datesEqual message s)"
| session_fetchLatestConversation:
    "session s \<Longrightarrow> session (snd (fetchLatestConversation api dateMs now fallback s))"

section \<open>Example inputs\<close>

definition example_config :: Config where
  "example_config =
     \<lparr>accountId = ''account-1'', config_customerId = None, baseUrl = None, greeting = None,
      awayMessage = None, customer = None, debug = None, setInitialMessage = None,
      onSetCustomerId = False, onSetConversationId = False, onSetWidgetSettings = False,
      onMessageCreated = False, onMessagesUpdated = False\<rparr>"

definition example_session :: Papercups where
  "example_session = init False None example_config"

text \<open>
  The pending entry that \<open>sendNewMessage\<close> appends for a body \<open>b\<close> sent at \<open>t\<close> in a
  session that has no customer yet.
\<close>

definition customer_message :: "string \<Rightarrow> string \<Rightarrow> Message" where
  "customer_message b t =
     \<lparr>body = Some b, file_ids = None, msg_type = Some Customer, customer_id = None,
      sent_at = Some t, created_at = None, seen_at = None\<rparr>"

text \<open>A backend that rejects every request.\<close>

definition failing_api :: API where
  "failing_api =
     \<lparr>api_isValidCustomer = (\<lambda>_ _ _ _. Inl RequestFailed),
      api_findCustomerByExternalId = (\<lambda>_ _ _ _ _. Inl RequestFailed),
      api_createNewCustomer = (\<lambda>_ _ _ _. Inl RequestFailed),
      api_updateCustomerMetadata = (\<lambda>_ _ _ _. Inl RequestFailed),
      api_createNewConversation = (\<lambda>_ _ _ _. Inl RequestFailed),
      api_fetchCustomerConversations = (\<lambda>_ _ _ _. Inl RequestFailed),
      api_fetchWidgetSettings = (\<lambda>_ _ _. Inl RequestFailed)\<rparr>"

text \<open>Two confirmed messages of a conversation.\<close>

definition hi_message :: Message where
  "hi_message =
     \<lparr>body = Some ''hi'', file_ids = None, msg_type = Some Customer,
      customer_id = Some ''11111111-1111-1111-1111-111111111111'',
      sent_at = Some ''2021-03-04T05:06:06.900Z'',
      created_at = Some ''2021-03-04T05:06:07.000Z'', seen_at = None\<rparr>"

definition reply_message :: Message where
  "reply_message =
     \<lparr>body = Some ''How can I help?'', file_ids = None, msg_type = Some Agent,
      customer_id = None, sent_at = None,
      created_at = Some ''2021-03-04T05:06:08.000Z'', seen_at = None\<rparr>"

text \<open>
  A backend that knows one customer, under the external identifier \<open>user-7\<close>, with one
  conversation of these two messages, which it lists newest first.
\<close>

definition example_api :: API where
  "example_api =
     \<lparr>api_isValidCustomer = (\<lambda>_ _ _ _. Inr True),
      api_findCustomerByExternalId =
        (\<lambda>_ externalId _ _ _.
           Inr (if externalId = ''user-7''
                then Some ''11111111-1111-1111-1111-111111111111'' else None)),
      api_createNewCustomer = (\<lambda>_ _ _ _. Inr ''22222222-2222-2222-2222-222222222222''),
      api_updateCustomerMetadata = (\<lambda>_ cid _ _. Inr cid),
      api_createNewConversation = (\<lambda>_ _ _ _. Inr ''conversation-1''),
      api_fetchCustomerConversations =
        (\<lambda>_ _ _ _.
           Inr [\<lparr>conv_id = ''conversation-1'',
                 conv_messages = Some [reply_message, hi_message]\<rparr>]),
      api_fetchWidgetSettings = (\<lambda>_ _ _. Inr None)\<rparr>"

text \<open>
  The session of that customer when the page configures a greeting, and when it
  configures a generator of its own for the initial message.
\<close>

definition greeting_session :: Papercups where
  "greeting_session =
     init False (Some ''11111111-1111-1111-1111-111111111111'')
       (example_config\<lparr>greeting := Some ''Hello!''\<rparr>)"

definition welcome_message :: Message where
  "welcome_message =
     \<lparr>body = Some ''Welcome!'', file_ids = None, msg_type = Some Bot,
      customer_id = Some ''bot'', sent_at = None,
      created_at = Some ''2020-01-01T00:00:00.000Z'', seen_at = None\<rparr>"

definition generator_session :: Papercups where
  "generator_session =
     init False (Some ''11111111-1111-1111-1111-111111111111'')
       (example_config\<lparr>setInitialMessage := Some (\<lambda>_ _. [welcome_message])\<rparr>)"

text \<open>The reading of the two creation timestamps above, in milliseconds.\<close>

definition example_dateMs :: "string option \<Rightarrow> int option" where
  "example_dateMs x =
     (if x = Some ''2021-03-04T05:06:07.000Z'' then Some 1614834367000
      else if x = Some ''2021-03-04T05:06:08.000Z'' then Some 1614834368000
      else None)"

section \<open>Reconciliation of pushed messages\<close>

lemma messages_setMessages: "messages (setMessages msgs s) = msgs"
  by (simp add: setMessages_def emit_def Let_def)

lemma handleMessageCreated_found:
  assumes "find (isUnsent datesEqual E) (messages s) = Some u"
  shows "messages (handleMessageCreated datesEqual E s) =
           map (\<lambda>m. if sent_at m = sent_at u then E else m) (messages s)"
  using assms by (simp add: handleMessageCreated_def Let_def messages_setMessages)

lemma handleMessageCreated_not_found:
  assumes "find (isUnsent datesEqual E) (messages s) = None"
  shows "messages (handleMessageCreated datesEqual E s) = messages s @ [E]"
  using assms by (simp add: handleMessageCreated_def Let_def messages_setMessages)

text \<open>
  What the replacement does, whatever the helper that compares the timestamps: the entries
  that carry the send timestamp of the entry found become the incoming message, and
  every other entry stays as it is.
\<close>

lemma handleMessageCreated_keeps_other_timestamps:
  assumes "find (isUnsent datesEqual E) (messages s) = Some u"
    and "j < length (messages s)"
    and "sent_at (messages s ! j) \<noteq> sent_at u"
  shows "messages (handleMessageCreated datesEqual E s) ! j = messages s ! j"
  using assms by (simp add: handleMessageCreated_found)

lemma handleMessageCreated_replaces_same_timestamp:
  assumes i: "i < length (messages s)"
    and P: "isUnsent datesEqual E (messages s ! i)"
    and same: "\<forall>m \<in> set (messages s).
                 isUnsent datesEqual E m \<longrightarrow> sent_at m = sent_at (messages s ! i)"
  shows "messages (handleMessageCreated datesEqual E s) =
           map (\<lambda>m. if sent_at m = sent_at (messages s ! i) then E else m) (messages s)"
proof -
  from i P have "\<exists>m \<in> set (messages s). isUnsent datesEqual E m"
    using nth_mem by blast
  then obtain u where u: "find (isUnsent datesEqual E) (messages s) = Some u"
    by (cases "find (isUnsent datesEqual E) (messages s)") (auto simp: find_None_iff)
  then have "isUnsent datesEqual E u" and "u \<in> set (messages s)"
    by (auto simp: find_Some_iff)
  then have "sent_at u = sent_at (messages s ! i)"
    using same by blast
  then show ?thesis
    by (simp add: handleMessageCreated_found[OF u])
qed

text \<open>
  With a helper that accepts equal representations only, as the specification describes
  it: when the matching pending entry at position \<open>i\<close> is the only entry of the transcript
  with its send timestamp, the reconciled transcript is the transcript with that one
  entry replaced.
\<close>

lemma handleMessageCreated_in_place:
  assumes helper: "\<And>x y. datesEqual x y \<Longrightarrow> x = y"
    and i: "i < length (messages s)"
    and P: "isUnsent datesEqual E (messages s ! i)"
    and only: "\<forall>j < length (messages s).
                 j \<noteq> i \<longrightarrow> sent_at (messages s ! j) \<noteq> sent_at (messages s ! i)"
  shows "messages (handleMessageCreated datesEqual E s) = (messages s)[i := E]"
proof -
  have "sent_at (messages s ! i) = sent_at E"
    using P helper by (simp add: isUnsent_def)
  moreover have "sent_at m = sent_at E" if "isUnsent datesEqual E m" for m
    using that helper by (simp add: isUnsent_def)
  ultimately have "\<forall>m \<in> set (messages s).
      isUnsent datesEqual E m \<longrightarrow> sent_at m = sent_at (messages s ! i)"
    by simp
  with i P have "messages (handleMessageCreated datesEqual E s) =
      map (\<lambda>m. if sent_at m = sent_at (messages s ! i) then E else m) (messages s)"
    by (rule handleMessageCreated_replaces_same_timestamp)
  also have "\<dots> = (messages s)[i := E]"
  proof (rule nth_equalityI)
    show "length (map (\<lambda>m. if sent_at m = sent_at (messages s ! i) then E else m)
        (messages s)) = length ((messages s)[i := E])"
      by simp
  next
    fix j
    assume "j < length (map (\<lambda>m. if sent_at m = sent_at (messages s ! i) then E else m)
        (messages s))"
    then have j: "j < length (messages s)"
      by simp
    show "map (\<lambda>m. if sent_at m = sent_at (messages s ! i) then E else m) (messages s) ! j =
        (messages s)[i := E] ! j"
    proof (cases "j = i")
      case True
      then show ?thesis
        using i by simp
    next
      case False
      then have "sent_at (messages s ! j) \<noteq> sent_at (messages s ! i)"
        using only j by blast
      then show ?thesis
        using False j by simp
    qed
  qed
  finally show ?thesis .
qed

text \<open>
  Claim C1.  A pending entry that matches the incoming confirmed message \<open>E\<close> is to be
  replaced in place: \<open>E\<close> takes its position and the rest of the transcript stays as it
  is, so that the message is not duplicated.  The code replaces every entry that carries
  the send timestamp of the entry found, whatever its body (the slip of claim C3).  Here
  the pending entries \<open>hello\<close> and \<open>anyone there?\<close> were sent at the same time and a third
  one later; the server confirms \<open>hello\<close>, which is the entry at position 0 and
  matches.  The reconciled transcript holds \<open>E\<close> twice, and is not the transcript with
  the entry at position 0 replaced.
\<close>

theorem handleMessageCreated_not_in_place:
  "isUnsent areDatesEqual
     ((customer_message ''hello'' ''2021-03-04T05:06:07.008Z'')
        \<lparr>created_at := Some ''2021-03-04T05:06:07.500Z''\<rparr>)
     (messages
        (example_session\<lparr>messages :=
           [customer_message ''hello'' ''2021-03-04T05:06:07.008Z'',
            customer_message ''anyone there?'' ''2021-03-04T05:06:07.008Z'',
            customer_message ''later'' ''2021-03-04T05:06:09.000Z'']\<rparr>) ! 0) \<and>
   messages
     (handleMessageCreated areDatesEqual
        ((customer_message ''hello'' ''2021-03-04T05:06:07.008Z'')
           \<lparr>created_at := Some ''2021-03-04T05:06:07.500Z''\<rparr>)
        (example_session\<lparr>messages :=
           [customer_message ''hello'' ''2021-03-04T05:06:07.008Z'',
            customer_message ''anyone there?'' ''2021-03-04T05:06:07.008Z'',
            customer_message ''later'' ''2021-03-04T05:06:09.000Z'']\<rparr>)) =
     [(customer_message ''hello'' ''2021-03-04T05:06:07.008Z'')
        \<lparr>created_at := Some ''2021-03-04T05:06:07.500Z''\<rparr>,
      (customer_message ''hello'' ''2021-03-04T05:06:07.008Z'')
        \<lparr>created_at := Some ''2021-03-04T05:06:07.500Z''\<rparr>,
      customer_message ''later'' ''2021-03-04T05:06:09.000Z''] \<and>
   messages
     (handleMessageCreated areDatesEqual
        ((customer_message ''hello'' ''2021-03-04T05:06:07.008Z'')
           \<lparr>created_at := Some ''2021-03-04T05:06:07.500Z''\<rparr>)
        (example_session\<lparr>messages :=
           [customer_message ''hello'' ''2021-03-04T05:06:07.008Z'',
            customer_message ''anyone there?'' ''2021-03-04T05:06:07.008Z'',
            customer_message ''later'' ''2021-03-04T05:06:09.000Z'']\<rparr>)) \<noteq>
     (messages
        (example_session\<lparr>messages :=
           [customer_message ''hello'' ''2021-03-04T05:06:07.008Z'',
            customer_message ''anyone there?'' ''2021-03-04T05:06:07.008Z'',
            customer_message ''later'' ''2021-03-04T05:06:09.000Z'']\<rparr>))
       [0 := (customer_message ''hello'' ''2021-03-04T05:06:07.008Z'')
                \<lparr>created_at := Some ''2021-03-04T05:06:07.500Z''\<rparr>]"
  by (simp add: handleMessageCreated_def Let_def messages_setMessages isUnsent_def
      areDatesEqual_def customer_message_def truthy_def)

text \<open>
  Claim C2.  When no pending entry of the transcript matches the incoming confirmed message
  \<open>E\<close> (by its send timestamp and its body), \<open>E\<close> is appended at the end of the
  transcript, whose length grows by exactly one.
\<close>

theorem handleMessageCreated_appends_unmatched:
  assumes "\<not> (\<exists>m \<in> set (messages s). isUnsent datesEqual E m)"
  shows "messages (handleMessageCreated datesEqual E s) = messages s @ [E] \<and>
         length (messages (handleMessageCreated datesEqual E s)) = length (messages s) + 1"
proof -
  from assms have "find (isUnsent datesEqual E) (messages s) = None"
    by (simp add: find_None_iff)
  then show ?thesis
    by (simp add: handleMessageCreated_not_found)
qed

theorem handleMessageCreated_appends_unmatched_witness:
  "\<not> (\<exists>m \<in> set (messages
        (example_session\<lparr>messages := [customer_message ''hi'' ''2021-03-04T05:06:07.008Z'']\<rparr>)).
        isUnsent areDatesEqual
          \<lparr>body = Some ''How can I help?'', file_ids = None, msg_type = Some Agent,
           customer_id = None, sent_at = Some ''2021-03-04T05:07:00.000Z'',
           created_at = Some ''2021-03-04T05:07:00.100Z'', seen_at = None\<rparr> m) \<and>
   messages
     (handleMessageCreated areDatesEqual
        \<lparr>body = Some ''How can I help?'', file_ids = None, msg_type = Some Agent,
         customer_id = None, sent_at = Some ''2021-03-04T05:07:00.000Z'',
         created_at = Some ''2021-03-04T05:07:00.100Z'', seen_at = None\<rparr>
        (example_session\<lparr>messages := [customer_message ''hi'' ''2021-03-04T05:06:07.008Z'']\<rparr>)) =
     [customer_message ''hi'' ''2021-03-04T05:06:07.008Z'',
      \<lparr>body = Some ''How can I help?'', file_ids = None, msg_type = Some Agent,
       customer_id = None, sent_at = Some ''2021-03-04T05:07:00.000Z'',
       created_at = Some ''2021-03-04T05:07:00.100Z'', seen_at = None\<rparr>]"
proof -
  let ?E = "\<lparr>body = Some ''How can I help?'', file_ids = None, msg_type = Some Agent,
             customer_id = None, sent_at = Some ''2021-03-04T05:07:00.000Z'',
             created_at = Some ''2021-03-04T05:07:00.100Z'', seen_at = None\<rparr>"
  let ?s = "example_session\<lparr>messages := [customer_message ''hi'' ''2021-03-04T05:06:07.008Z'']\<rparr>"
  have none: "\<not> (\<exists>m \<in> set (messages ?s). isUnsent areDatesEqual ?E m)"
    by (simp add: isUnsent_def areDatesEqual_def customer_message_def)
  show ?thesis
    using handleMessageCreated_appends_unmatched [of ?s areDatesEqual ?E, OF none] none
    by simp
qed

text \<open>
  Two pending entries with the same send timestamp \<open>t\<close> and the bodies \<open>a\<close> and \<open>b\<close>,
  and the confirmation of \<open>a\<close>: whatever the helper, as long as it takes \<open>t\<close> to be equal
  to itself, the confirmed message takes the place of both entries.
\<close>

lemma handleMessageCreated_replaces_both:
  assumes "datesEqual (Some t) (Some t)"
  shows "messages
     (handleMessageCreated datesEqual ((customer_message a t)\<lparr>created_at := Some t'\<rparr>)
        (s\<lparr>messages := [customer_message a t, customer_message b t]\<rparr>)) =
     [(customer_message a t)\<lparr>created_at := Some t'\<rparr>,
      (customer_message a t)\<lparr>created_at := Some t'\<rparr>]"
  using assms
  by (simp add: handleMessageCreated_def Let_def messages_setMessages isUnsent_def
      customer_message_def truthy_def)

text \<open>
  Claim C3.  Reconciliation is to keep two pending entries apart that have the same send
  timestamp and different bodies: when the server confirms one, the other stays.  The
  code does not: the search compares the bodies and finds the entry \<open>a\<close>, but the
  replacement that follows goes by the send timestamp alone, so the confirmed message
  takes the place of both entries, and the pending entry \<open>b\<close> is gone.
\<close>

theorem handleMessageCreated_merges_equal_timestamps:
  "messages
     (handleMessageCreated areDatesEqual
        ((customer_message ''a'' ''2021-03-04T05:06:07.008Z'')
           \<lparr>created_at := Some ''2021-03-04T05:06:07.500Z''\<rparr>)
        (example_session\<lparr>messages :=
           [customer_message ''a'' ''2021-03-04T05:06:07.008Z'',
            customer_message ''b'' ''2021-03-04T05:06:07.008Z'']\<rparr>)) =
     [(customer_message ''a'' ''2021-03-04T05:06:07.008Z'')
        \<lparr>created_at := Some ''2021-03-04T05:06:07.500Z''\<rparr>,
      (customer_message ''a'' ''2021-03-04T05:06:07.008Z'')
        \<lparr>created_at := Some ''2021-03-04T05:06:07.500Z''\<rparr>]"
  by (simp add: handleMessageCreated_def Let_def messages_setMessages isUnsent_def
      areDatesEqual_def customer_message_def truthy_def)

section \<open>Sending\<close>

lemma dropWhile_all_Nil:
  assumes "\<forall>x \<in> set (dropWhile P xs). P x"
  shows "dropWhile P xs = []"
proof (rule ccontr)
  assume ne: "dropWhile P xs \<noteq> []"
  then have "\<not> P (hd (dropWhile P xs))"
    by (rule hd_dropWhile)
  moreover have "hd (dropWhile P xs) \<in> set (dropWhile P xs)"
    using ne by simp
  ultimately show False
    using assms by blast
qed

text \<open>A string trims to the empty string exactly when it is white space only.\<close>

lemma trim_Nil_iff: "trim b = [] \<longleftrightarrow> (\<forall>c \<in> set b. isWhiteSpace c)"
proof
  assume "trim b = []"
  then have "\<forall>x \<in> set (dropWhile isWhiteSpace b). isWhiteSpace x"
    by (simp add: trim_def dropWhile_eq_Nil_conv)
  then have "dropWhile isWhiteSpace b = []"
    by (rule dropWhile_all_Nil)
  then show "\<forall>c \<in> set b. isWhiteSpace c"
    by (simp add: dropWhile_eq_Nil_conv)
next
  assume "\<forall>c \<in> set b. isWhiteSpace c"
  then show "trim b = []"
    by (auto simp: trim_def dest: set_dropWhileD)
qed

text \<open>
  Claim C4.  A message whose body is absent, empty or white space only, and whose list of
  attachment ids is absent or empty, is not sent: \<open>sendNewMessage\<close> returns the session as
  it was (the same transcript, customer id, conversation id and channel, and no effect
  added: no request to the backend, no push on the channel).
\<close>

theorem sendNewMessage_rejects_empty:
  assumes "case body message of None \<Rightarrow> True | Some b \<Rightarrow> \<forall>c \<in> set b. isWhiteSpace c"
    and "case file_ids message of None \<Rightarrow> True | Some f \<Rightarrow> f = []"
  shows "sendNewMessage api sentAt message mail s = (Inr (), s)"
  using assms
  by (auto simp: sendNewMessage_def Let_def trim_Nil_iff split: option.splits)

theorem sendNewMessage_rejects_empty_witness:
  "sendNewMessage example_api ''2021-03-04T05:06:07.008Z''
     \<lparr>body = Some [CHR '' '', CHR 0x09, CHR 0x0A], file_ids = Some [], msg_type = None,
      customer_id = None, sent_at = None, created_at = None, seen_at = None\<rparr>
     None example_session = (Inr (), example_session)"
  using sendNewMessage_rejects_empty
    [of "\<lparr>body = Some [CHR '' '', CHR 0x09, CHR 0x0A], file_ids = Some [], msg_type = None,
          customer_id = None, sent_at = None, created_at = None, seen_at = None\<rparr>"
        example_api "''2021-03-04T05:06:07.008Z''" None example_session]
  by (simp add: isWhiteSpace_def)

section \<open>Customer identity\<close>

text \<open>
  Claim C5.  A customer id that is absent, empty or refused by the format check is invalid,
  and the session is returned as it was: no request is made to the backend.  For a
  non-empty id that passes the format check, when the request to the backend fails, the id
  is valid; the effects are the request and the two warnings.
\<close>

theorem isValidCustomerId_format_and_fallback:
  "((cid = None \<or> cid = Some [] \<or> (\<exists>c. cid = Some c \<and> \<not> isValidUuid c)) \<longrightarrow>
      isValidCustomerId isValidUuid api cid s = (False, s)) \<and>
   (\<forall>c err. cid = Some c \<and> c \<noteq> [] \<and> isValidUuid c \<and>
      api_isValidCustomer api (length (effects s)) c (accountId (config s))
        (baseUrl (config s)) = Inl err \<longrightarrow>
      fst (isValidCustomerId isValidUuid api cid s) = True \<and>
      effects (snd (isValidCustomerId isValidUuid api cid s)) =
        effects s @
          [Request (IsValidCustomer c (accountId (config s)) (baseUrl (config s))),
           Log Warn ''Failed to validate customer ID.'',
           Log Warn ''You might be on an older version of Papercups.''])"
  by (auto simp: isValidCustomerId_def isValidCustomer_def logger_warn_def emit_def
      split: option.splits)

theorem isValidCustomerId_format_and_fallback_witness:
  "isValidCustomerId (\<lambda>c. length c = 36) example_api (Some ''not-a-uuid'') example_session =
     (False, example_session) \<and>
   fst (isValidCustomerId (\<lambda>c. length c = 36) failing_api
          (Some ''11111111-1111-1111-1111-111111111111'') example_session) = True \<and>
   effects (snd (isValidCustomerId (\<lambda>c. length c = 36) failing_api
          (Some ''11111111-1111-1111-1111-111111111111'') example_session)) =
     [Request (IsValidCustomer ''11111111-1111-1111-1111-111111111111'' ''account-1'' None),
      Log Warn ''Failed to validate customer ID.'',
      Log Warn ''You might be on an older version of Papercups.'']"
  using isValidCustomerId_format_and_fallback
      [of "Some ''not-a-uuid''" "\<lambda>c. length c = 36" example_api example_session]
    isValidCustomerId_format_and_fallback
      [of "Some ''11111111-1111-1111-1111-111111111111''" "\<lambda>c. length c = 36" failing_api
          example_session]
  by (simp add: failing_api_def example_session_def init_def example_config_def)

text \<open>
  Claim C6.  Without metadata, or with metadata that has no external identifier, the result
  is the candidate id and nothing is asked of the backend.  With an external identifier,
  when the lookup answers with a match other than the candidate, the result is the match;
  when it answers with no match, the result is \<open>None\<close>, whatever the candidate.
\<close>

theorem checkForExistingCustomer_cases:
  "((metadata = None \<or> (\<exists>m. metadata = Some m \<and> \<not> truthy (external_id m))) \<longrightarrow>
      checkForExistingCustomer api metadata dflt s = (Inr dflt, s)) \<and>
   (\<forall>m ext found. metadata = Some m \<and> external_id m = Some ext \<and> ext \<noteq> [] \<and>
      api_findCustomerByExternalId api (length (effects s)) ext (accountId (config s))
        (email m, host m) (baseUrl (config s)) = Inr found \<longrightarrow>
      (truthy found \<and> found \<noteq> dflt \<longrightarrow>
         fst (checkForExistingCustomer api metadata dflt s) = Inr found) \<and>
      (\<not> truthy found \<longrightarrow>
         fst (checkForExistingCustomer api metadata dflt s) = Inr None))"
  by (auto simp: checkForExistingCustomer_def findCustomerByMetadata_def
      findCustomerByExternalId_def truthy_def split: option.splits)

theorem checkForExistingCustomer_cases_witness:
  "checkForExistingCustomer example_api
     (Some \<lparr>external_id = None, email = Some ''a@example.com'', host = None\<rparr>)
     (Some ''33333333-3333-3333-3333-333333333333'') example_session =
     (Inr (Some ''33333333-3333-3333-3333-333333333333''), example_session) \<and>
   fst (checkForExistingCustomer example_api
     (Some \<lparr>external_id = Some ''user-7'', email = None, host = None\<rparr>)
     (Some ''33333333-3333-3333-3333-333333333333'') example_session) =
     Inr (Some ''11111111-1111-1111-1111-111111111111'') \<and>
   fst (checkForExistingCustomer example_api
     (Some \<lparr>external_id = Some ''user-8'', email = None, host = None\<rparr>)
     (Some ''33333333-3333-3333-3333-333333333333'') example_session) = Inr None"
  using checkForExistingCustomer_cases
      [of "Some \<lparr>external_id = None, email = Some ''a@example.com'', host = None\<rparr>"
          example_api "Some ''33333333-3333-3333-3333-333333333333''" example_session]
    checkForExistingCustomer_cases
      [of "Some \<lparr>external_id = Some ''user-7'', email = None, host = None\<rparr>"
          example_api "Some ''33333333-3333-3333-3333-333333333333''" example_session]
    checkForExistingCustomer_cases
      [of "Some \<lparr>external_id = Some ''user-8'', email = None, host = None\<rparr>"
          example_api "Some ''33333333-3333-3333-3333-333333333333''" example_session]
  by (simp add: example_api_def truthy_def)

section \<open>Seen messages\<close>

text \<open>
  Claim C10.  \<open>markMessagesAsSeen\<close> sets a transcript of the same length.  At every
  position, a message that carries a seen timestamp is the message that was there, and a
  message that carries none is the message that was there with the seen timestamp set to
  the reading of the clock, every other field as it was.
\<close>

theorem markMessagesAsSeen_frame:
  "length (messages (markMessagesAsSeen now s)) = length (messages s) \<and>
   (\<forall>i < length (messages s).
      messages (markMessagesAsSeen now s) ! i =
        (if truthy (seen_at (messages s ! i)) then messages s ! i
         else (messages s ! i)\<lparr>seen_at := Some (now i)\<rparr>))"
  by (auto simp: markMessagesAsSeen_def Let_def messages_setMessages emit_def
      nth_enumerate_eq split: option.splits)

theorem markMessagesAsSeen_frame_witness:
  "messages (markMessagesAsSeen (\<lambda>i. ''2021-03-04T05:10:00.000Z'')
     (example_session\<lparr>messages :=
        [(customer_message ''hi'' ''2021-03-04T05:06:07.008Z'')
           \<lparr>seen_at := Some ''2021-03-04T05:07:00.000Z''\<rparr>,
         customer_message ''are you there?'' ''2021-03-04T05:08:00.000Z'']\<rparr>)) ! 0 =
     (customer_message ''hi'' ''2021-03-04T05:06:07.008Z'')
       \<lparr>seen_at := Some ''2021-03-04T05:07:00.000Z''\<rparr> \<and>
   messages (markMessagesAsSeen (\<lambda>i. ''2021-03-04T05:10:00.000Z'')
     (example_session\<lparr>messages :=
        [(customer_message ''hi'' ''2021-03-04T05:06:07.008Z'')
           \<lparr>seen_at := Some ''2021-03-04T05:07:00.000Z''\<rparr>,
         customer_message ''are you there?'' ''2021-03-04T05:08:00.000Z'']\<rparr>)) ! 1 =
     (customer_message ''are you there?'' ''2021-03-04T05:08:00.000Z'')
       \<lparr>seen_at := Some ''2021-03-04T05:10:00.000Z''\<rparr>"
  using markMessagesAsSeen_frame
    [of "\<lambda>i. ''2021-03-04T05:10:00.000Z''"
        "example_session\<lparr>messages :=
           [(customer_message ''hi'' ''2021-03-04T05:06:07.008Z'')
              \<lparr>seen_at := Some ''2021-03-04T05:07:00.000Z''\<rparr>,
            customer_message ''are you there?'' ''2021-03-04T05:08:00.000Z'']\<rparr>"]
  by (simp add: customer_message_def truthy_def)

section \<open>What the setters change\<close>

lemma emit_simps [simp]:
  "config (emit e s) = config s"
  "debugModeEnabled (emit e s) = debugModeEnabled s"
  "customerId (emit e s) = customerId s"
  "conversationId (emit e s) = conversationId s"
  "messages (emit e s) = messages s"
  "settings (emit e s) = settings s"
  "channel (emit e s) = channel s"
  "next_handle (emit e s) = next_handle s"
  "effects (emit e s) = effects s @ [e]"
  by (simp_all add: emit_def)

lemma logger_debug_simps [simp]:
  "config (logger_debug msg s) = config s"
  "debugModeEnabled (logger_debug msg s) = debugModeEnabled s"
  "customerId (logger_debug msg s) = customerId s"
  "conversationId (logger_debug msg s) = conversationId s"
  "messages (logger_debug msg s) = messages s"
  "settings (logger_debug msg s) = settings s"
  "channel (logger_debug msg s) = channel s"
  "next_handle (logger_debug msg s) = next_handle s"
  "effects (logger_debug msg s) = effects s @ (if debugModeEnabled s then [Log Debug msg] else [])"
  by (simp_all add: logger_debug_def)

lemma setMessages_simps [simp]:
  "config (setMessages msgs s) = config s"
  "debugModeEnabled (setMessages msgs s) = debugModeEnabled s"
  "customerId (setMessages msgs s) = customerId s"
  "conversationId (setMessages msgs s) = conversationId s"
  "settings (setMessages msgs s) = settings s"
  "channel (setMessages msgs s) = channel s"
  "next_handle (setMessages msgs s) = next_handle s"
  "effects (setMessages msgs s) =
     effects s @ (if onMessagesUpdated (config s) then [Notify (OnMessagesUpdated msgs)] else [])"
  by (simp_all add: setMessages_def Let_def)

lemma joinConversationChannel_simps [simp]:
  "config (joinConversationChannel conv fb s) = config s"
  "debugModeEnabled (joinConversationChannel conv fb s) = debugModeEnabled s"
  "customerId (joinConversationChannel conv fb s) = customerId s"
  "conversationId (joinConversationChannel conv fb s) = conversationId s"
  "messages (joinConversationChannel conv fb s) = messages s"
  "settings (joinConversationChannel conv fb s) = settings s"
  "next_handle (joinConversationChannel conv fb s) = Suc (next_handle s)"
  "channel (joinConversationChannel conv fb s) =
     Some \<lparr>handle = next_handle s, topic = ConversationTopic conv,
           param_customer_id = js_or (customerId s) fb\<rparr>"
  by (simp_all add: joinConversationChannel_def Let_def split: option.splits)

lemma joinConversationChannel_effects:
  "effects (joinConversationChannel conv fb s) =
     effects s @
     (case channel s of None \<Rightarrow> [] | Some c \<Rightarrow> [ChannelLeave c]) @
     (if debugModeEnabled s then [Log Debug ''Joining channel:''] else []) @
     [ChannelOn \<lparr>handle = next_handle s, topic = ConversationTopic conv,
                 param_customer_id = js_or (customerId s) fb\<rparr> ''shout'',
      ChannelJoin \<lparr>handle = next_handle s, topic = ConversationTopic conv,
                   param_customer_id = js_or (customerId s) fb\<rparr>]"
  by (simp add: joinConversationChannel_def Let_def split: option.splits)

lemma setConversationId_simps [simp]:
  "config (setConversationId conv s) = config s"
  "debugModeEnabled (setConversationId conv s) = debugModeEnabled s"
  "customerId (setConversationId conv s) = customerId s"
  "conversationId (setConversationId conv s) = Some conv"
  "messages (setConversationId conv s) = messages s"
  "settings (setConversationId conv s) = settings s"
  "next_handle (setConversationId conv s) = Suc (next_handle s)"
  "channel (setConversationId conv s) =
     Some \<lparr>handle = next_handle s, topic = ConversationTopic conv,
           param_customer_id = js_or (customerId s) None\<rparr>"
  by (simp_all add: setConversationId_def Let_def)

lemma setConversationId_effects:
  "effects (setConversationId conv s) =
     effects s @
     (case channel s of None \<Rightarrow> [] | Some c \<Rightarrow> [ChannelLeave c]) @
     (if debugModeEnabled s then [Log Debug ''Joining channel:''] else []) @
     [ChannelOn \<lparr>handle = next_handle s, topic = ConversationTopic conv,
                 param_customer_id = js_or (customerId s) None\<rparr> ''shout'',
      ChannelJoin \<lparr>handle = next_handle s, topic = ConversationTopic conv,
                   param_customer_id = js_or (customerId s) None\<rparr>] @
     (if onSetConversationId (config s) then [Notify (OnSetConversationId conv)] else [])"
  by (simp add: setConversationId_def Let_def joinConversationChannel_effects)

section \<open>Greeting policy\<close>

lemma getDefaultGreeting_cong:
  assumes c: "config s' = config s" and st: "settings s' = settings s"
  shows "getDefaultGreeting now ov s' = getDefaultGreeting now ov s"
  unfolding getDefaultGreeting_def c st by (rule refl)


lemma truthy_js_or: "truthy (js_or a b) \<longleftrightarrow> truthy a \<or> truthy b"
  by (simp add: js_or_def)

lemma getDefaultGreeting_default:
  assumes "setInitialMessage (config s) = None"
  shows "getDefaultGreeting now ov s =
     (if \<not> truthy (greeting (config s)) \<and> \<not> truthy (ws_greeting (settings s)) \<and>
         \<not> truthy (awayMessage (config s)) \<and> \<not> truthy (away_message (settings s))
      then []
      else [spread ov \<lparr>body = greetingBody s, file_ids = None, msg_type = Some Bot,
              customer_id = Some ''bot'', sent_at = None, created_at = Some now,
              seen_at = None\<rparr>])"
proof -
  have "truthy a \<Longrightarrow> 0 < length (case a of None \<Rightarrow> [] | Some x \<Rightarrow> x)" for a
    by (cases a) (simp_all add: truthy_def)
  then show ?thesis
    using assms
    by (auto simp: getDefaultGreeting_def Let_def greetingBody_def truthy_js_or)
qed

lemma getDefaultGreeting_generator:
  "setInitialMessage (config s) = Some generator \<Longrightarrow>
   getDefaultGreeting now ov s = generator now ov"
  by (simp add: getDefaultGreeting_def)

lemma spread_created_at:
  "created_at (spread ov m) = (case ov_created_at ov of None \<Rightarrow> created_at m | Some v \<Rightarrow> v)"
  by (simp add: spread_def)

lemma spread_clock:
  "(spread ov \<lparr>body = b, file_ids = f, msg_type = ty, customer_id = c, sent_at = sa,
       created_at = x, seen_at = se\<rparr>)\<lparr>created_at := None\<rparr> =
   (spread ov \<lparr>body = b, file_ids = f, msg_type = ty, customer_id = c, sent_at = sa,
       created_at = y, seen_at = se\<rparr>)\<lparr>created_at := None\<rparr>"
  by (simp add: spread_def cong: option.case_cong)

lemma spread_overridden:
  "ov_created_at ov \<noteq> None \<Longrightarrow>
   spread ov \<lparr>body = b, file_ids = f, msg_type = ty, customer_id = c, sent_at = sa,
       created_at = x, seen_at = se\<rparr> =
   spread ov \<lparr>body = b, file_ids = f, msg_type = ty, customer_id = c, sent_at = sa,
       created_at = y, seen_at = se\<rparr>"
  by (auto simp: spread_def cong: option.case_cong)

text \<open>
  Claim C8, as amended.  When the page configures no generator of its own: two invocations
  with the same configuration, settings and overrides return sequences that agree in
  everything but the creation timestamp of the greeting message; the two sequences are
  equal when the readings of the clock are, or when the overrides carry a creation
  timestamp; without a creation timestamp in the overrides, the creation timestamp of the
  message is the reading of the clock at the invocation; and the sequence is empty exactly
  when neither a greeting nor an away message is configured or fetched, and has one message
  otherwise.  When the page configures a generator, the sequence is what the generator
  returns at that invocation for the overrides.
\<close>

theorem getDefaultGreeting_up_to_clock:
  assumes "config s' = config s" and "settings s' = settings s"
  shows "(setInitialMessage (config s) = None \<longrightarrow>
            map (\<lambda>m. m\<lparr>created_at := None\<rparr>) (getDefaultGreeting now' ov s') =
            map (\<lambda>m. m\<lparr>created_at := None\<rparr>) (getDefaultGreeting now ov s) \<and>
            (now' = now \<or> ov_created_at ov \<noteq> None \<longrightarrow>
               getDefaultGreeting now' ov s' = getDefaultGreeting now ov s) \<and>
            (ov_created_at ov = None \<longrightarrow>
               (\<forall>m \<in> set (getDefaultGreeting now ov s). created_at m = Some now)) \<and>
            (getDefaultGreeting now ov s = [] \<longleftrightarrow>
               \<not> truthy (greeting (config s)) \<and> \<not> truthy (ws_greeting (settings s)) \<and>
               \<not> truthy (awayMessage (config s)) \<and> \<not> truthy (away_message (settings s))) \<and>
            length (getDefaultGreeting now ov s) =
              (if \<not> truthy (greeting (config s)) \<and> \<not> truthy (ws_greeting (settings s)) \<and>
                  \<not> truthy (awayMessage (config s)) \<and> \<not> truthy (away_message (settings s))
               then 0 else 1)) \<and>
         (\<forall>generator. setInitialMessage (config s) = Some generator \<longrightarrow>
            getDefaultGreeting now ov s = generator now ov)"
proof (cases "setInitialMessage (config s)")
  case (Some generator)
  then show ?thesis
    by (simp add: getDefaultGreeting_generator)
next
  case None
  have body: "greetingBody s' = greetingBody s"
    using assms by (simp add: greetingBody_def)
  have None': "setInitialMessage (config s') = None"
    using None assms by simp
  have 1: "map (\<lambda>m. m\<lparr>created_at := None\<rparr>) (getDefaultGreeting now' ov s') =
           map (\<lambda>m. m\<lparr>created_at := None\<rparr>) (getDefaultGreeting now ov s)"
    using assms body
    by (simp add: getDefaultGreeting_default[OF None] getDefaultGreeting_default[OF None']
        spread_clock)
  have 2: "now' = now \<or> ov_created_at ov \<noteq> None \<longrightarrow>
           getDefaultGreeting now' ov s' = getDefaultGreeting now ov s"
    using assms body spread_overridden[of ov]
    by (auto simp: getDefaultGreeting_default[OF None] getDefaultGreeting_default[OF None'])
  have 3: "ov_created_at ov = None \<longrightarrow>
           (\<forall>m \<in> set (getDefaultGreeting now ov s). created_at m = Some now)"
    by (simp add: getDefaultGreeting_default[OF None] spread_created_at)
  have 4: "getDefaultGreeting now ov s = [] \<longleftrightarrow>
               \<not> truthy (greeting (config s)) \<and> \<not> truthy (ws_greeting (settings s)) \<and>
               \<not> truthy (awayMessage (config s)) \<and> \<not> truthy (away_message (settings s))"
    by (simp add: getDefaultGreeting_default[OF None])
  have 5: "length (getDefaultGreeting now ov s) =
              (if \<not> truthy (greeting (config s)) \<and> \<not> truthy (ws_greeting (settings s)) \<and>
                  \<not> truthy (awayMessage (config s)) \<and> \<not> truthy (away_message (settings s))
               then 0 else 1)"
    by (simp add: getDefaultGreeting_default[OF None])
  have 6: "\<forall>generator. setInitialMessage (config s) = Some generator \<longrightarrow>
            getDefaultGreeting now ov s = generator now ov"
    using None by simp
  from 1 2 3 4 5 have "setInitialMessage (config s) = None \<longrightarrow>
            map (\<lambda>m. m\<lparr>created_at := None\<rparr>) (getDefaultGreeting now' ov s') =
            map (\<lambda>m. m\<lparr>created_at := None\<rparr>) (getDefaultGreeting now ov s) \<and>
            (now' = now \<or> ov_created_at ov \<noteq> None \<longrightarrow>
               getDefaultGreeting now' ov s' = getDefaultGreeting now ov s) \<and>
            (ov_created_at ov = None \<longrightarrow>
               (\<forall>m \<in> set (getDefaultGreeting now ov s). created_at m = Some now)) \<and>
            (getDefaultGreeting now ov s = [] \<longleftrightarrow>
               \<not> truthy (greeting (config s)) \<and> \<not> truthy (ws_greeting (settings s)) \<and>
               \<not> truthy (awayMessage (config s)) \<and> \<not> truthy (away_message (settings s))) \<and>
            length (getDefaultGreeting now ov s) =
              (if \<not> truthy (greeting (config s)) \<and> \<not> truthy (ws_greeting (settings s)) \<and>
                  \<not> truthy (awayMessage (config s)) \<and> \<not> truthy (away_message (settings s))
               then 0 else 1)"
    by blast
  then show ?thesis
    using 6 by (rule conjI)
qed

text \<open>
  The clock is read: with a greeting configured and no overrides, two invocations at
  different times return different sequences.
\<close>

theorem getDefaultGreeting_reads_clock:
  "getDefaultGreeting ''2021-03-04T05:06:07.008Z'' no_overrides greeting_session \<noteq>
   getDefaultGreeting ''2021-03-04T05:06:08.000Z'' no_overrides greeting_session"
  by (simp add: getDefaultGreeting_def Let_def spread_def no_overrides_def greeting_session_def
      init_def example_config_def js_or_def truthy_def)

theorem getDefaultGreeting_up_to_clock_witness:
  "setInitialMessage (config greeting_session) = None \<and>
   map (\<lambda>m. m\<lparr>created_at := None\<rparr>)
     (getDefaultGreeting ''2021-03-04T05:06:08.000Z'' no_overrides
        (greeting_session\<lparr>messages := [hi_message]\<rparr>)) =
   map (\<lambda>m. m\<lparr>created_at := None\<rparr>)
     (getDefaultGreeting ''2021-03-04T05:06:07.008Z'' no_overrides greeting_session) \<and>
   map created_at (getDefaultGreeting ''2021-03-04T05:06:07.008Z'' no_overrides greeting_session) =
     [Some ''2021-03-04T05:06:07.008Z''] \<and>
   getDefaultGreeting ''2021-03-04T05:06:08.000Z''
     (pinnedOverrides (Some ''2021-03-04T05:06:07.000Z''))
     (greeting_session\<lparr>messages := [hi_message]\<rparr>) =
   getDefaultGreeting ''2021-03-04T05:06:07.008Z''
     (pinnedOverrides (Some ''2021-03-04T05:06:07.000Z'')) greeting_session \<and>
   getDefaultGreeting ''2021-03-04T05:06:07.008Z'' no_overrides example_session = [] \<and>
   getDefaultGreeting ''2021-03-04T05:06:07.008Z'' no_overrides generator_session =
     [welcome_message]"
proof -
  have nogen: "setInitialMessage (config greeting_session) = None"
    "setInitialMessage (config example_session) = None"
    by (simp_all add: greeting_session_def example_session_def init_def example_config_def)
  have gen: "setInitialMessage (config generator_session) = Some (\<lambda>_ _. [welcome_message])"
    by (simp add: generator_session_def init_def example_config_def)
  have one: "getDefaultGreeting ''2021-03-04T05:06:07.008Z'' no_overrides greeting_session \<noteq> []"
    using getDefaultGreeting_up_to_clock
      [of greeting_session greeting_session
          "''2021-03-04T05:06:07.008Z''" no_overrides "''2021-03-04T05:06:07.008Z''"] nogen
    by (simp add: greeting_session_def init_def example_config_def truthy_def)
  have stamp: "\<forall>m \<in> set (getDefaultGreeting ''2021-03-04T05:06:07.008Z'' no_overrides
      greeting_session). created_at m = Some ''2021-03-04T05:06:07.008Z''"
    using getDefaultGreeting_up_to_clock
      [of greeting_session greeting_session
          "''2021-03-04T05:06:07.008Z''" no_overrides "''2021-03-04T05:06:07.008Z''"] nogen
    by (simp add: no_overrides_def)
  have len: "length (getDefaultGreeting ''2021-03-04T05:06:07.008Z'' no_overrides
      greeting_session) \<le> 1"
    using getDefaultGreeting_up_to_clock
      [of greeting_session greeting_session
          "''2021-03-04T05:06:07.008Z''" no_overrides "''2021-03-04T05:06:07.008Z''"] nogen
    by (simp split: if_splits)
  obtain g where g: "getDefaultGreeting ''2021-03-04T05:06:07.008Z'' no_overrides
      greeting_session = [g]"
    using one len
    by (cases "getDefaultGreeting ''2021-03-04T05:06:07.008Z'' no_overrides greeting_session")
       auto
  have stamps: "map created_at (getDefaultGreeting ''2021-03-04T05:06:07.008Z'' no_overrides
      greeting_session) = [Some ''2021-03-04T05:06:07.008Z'']"
    using stamp unfolding g by simp
  have agree: "map (\<lambda>m. m\<lparr>created_at := None\<rparr>)
     (getDefaultGreeting ''2021-03-04T05:06:08.000Z'' no_overrides
        (greeting_session\<lparr>messages := [hi_message]\<rparr>)) =
   map (\<lambda>m. m\<lparr>created_at := None\<rparr>)
     (getDefaultGreeting ''2021-03-04T05:06:07.008Z'' no_overrides greeting_session)"
    using getDefaultGreeting_up_to_clock
      [of "greeting_session\<lparr>messages := [hi_message]\<rparr>" greeting_session
          "''2021-03-04T05:06:08.000Z''" no_overrides "''2021-03-04T05:06:07.008Z''"] nogen
    by simp
  have pinned: "getDefaultGreeting ''2021-03-04T05:06:08.000Z''
     (pinnedOverrides (Some ''2021-03-04T05:06:07.000Z''))
     (greeting_session\<lparr>messages := [hi_message]\<rparr>) =
   getDefaultGreeting ''2021-03-04T05:06:07.008Z''
     (pinnedOverrides (Some ''2021-03-04T05:06:07.000Z'')) greeting_session"
    using getDefaultGreeting_up_to_clock
      [of "greeting_session\<lparr>messages := [hi_message]\<rparr>" greeting_session
          "''2021-03-04T05:06:08.000Z''" "pinnedOverrides (Some ''2021-03-04T05:06:07.000Z'')"
          "''2021-03-04T05:06:07.008Z''"] nogen
    by (simp add: pinnedOverrides_def no_overrides_def)
  have empty: "getDefaultGreeting ''2021-03-04T05:06:07.008Z'' no_overrides example_session = []"
    using getDefaultGreeting_up_to_clock
      [of example_session example_session
          "''2021-03-04T05:06:07.008Z''" no_overrides "''2021-03-04T05:06:07.008Z''"] nogen
    by (simp add: example_session_def init_def example_config_def truthy_def)
  have generated: "getDefaultGreeting ''2021-03-04T05:06:07.008Z'' no_overrides
      generator_session = [welcome_message]"
    using getDefaultGreeting_up_to_clock
      [of generator_session generator_session
          "''2021-03-04T05:06:07.008Z''" no_overrides "''2021-03-04T05:06:07.008Z''"] gen
    by simp
  from nogen(1) agree stamps pinned empty generated show ?thesis
    by (intro conjI)
qed

section \<open>Conversation resolution\<close>

lemma js_insert_insort:
  assumes "dateMs (created_at x) \<noteq> None" and "\<forall>m \<in> set ys. dateMs (created_at m) \<noteq> None"
  shows "js_insert (compareCreatedAt dateMs) x ys = insort_key (createdAtMs dateMs) x ys"
  using assms
  by (induction ys) (auto simp: compareCreatedAt_def createdAtMs_def)

lemma js_sort_sort_key:
  assumes "\<forall>m \<in> set ms. dateMs (created_at m) \<noteq> None"
  shows "js_sort (compareCreatedAt dateMs) ms = sort_key (createdAtMs dateMs) ms"
  using assms
proof (induction ms)
  case Nil
  then show ?case by (simp add: js_sort_def)
next
  case (Cons m ms)
  then have "js_sort (compareCreatedAt dateMs) ms = sort_key (createdAtMs dateMs) ms"
    by simp
  moreover have "\<forall>m \<in> set (sort_key (createdAtMs dateMs) ms). dateMs (created_at m) \<noteq> None"
    using Cons.prems by simp
  ultimately show ?case
    using Cons.prems by (simp add: js_sort_def js_insert_insort)
qed

lemma hd_sort_key_least:
  assumes "ms \<noteq> []" and "m \<in> set ms"
  shows "f (hd (sort_key f ms)) \<le> f m"
proof -
  have s: "sorted (map f (sort_key f ms))" by simp
  have ne: "sort_key f ms \<noteq> []" using assms(1) by (metis length_0_conv length_sort)
  then obtain y ys where ys: "sort_key f ms = y # ys" by (cases "sort_key f ms") auto
  have "m \<in> set (sort_key f ms)" using assms(2) by simp
  with s ys show ?thesis by auto
qed

text \<open>The sort keeps the messages: it permutes them.\<close>

lemma mset_js_insert: "mset (js_insert cmp x ys) = add_mset x (mset ys)"
  by (induction ys) simp_all

lemma mset_js_sort: "mset (js_sort cmp xs) = mset xs"
  by (induction xs) (simp_all add: js_sort_def mset_js_insert)

lemma spread_pinned:
  "spread (pinnedOverrides t)
     \<lparr>body = b, file_ids = f, msg_type = ty, customer_id = c, sent_at = sa,
      created_at = x, seen_at = se\<rparr> =
     \<lparr>body = b, file_ids = f, msg_type = ty, customer_id = c, sent_at = sa,
      created_at = t, seen_at = t\<rparr>"
  by (simp add: spread_def pinnedOverrides_def no_overrides_def)

lemma fetchLatestConversation_found:
  assumes cid: "js_or (customerId s) fallback = Some cid" "cid \<noteq> []"
    and fetched: "api_fetchCustomerConversations api
        (length (effects (logger_debug ''Fetching conversations for customer:'' s)))
        cid (accountId (config s)) (baseUrl (config s)) = Inr (conversation # older)"
  shows "fetchLatestConversation api dateMs now fallback s =
    (let s1 = logger_debug ''Found existing conversations:''
               (emit (Request (FetchCustomerConversations cid (accountId (config s))
                  (baseUrl (config s))))
                 (logger_debug ''Fetching conversations for customer:'' s));
         msgs = (case conv_messages conversation of None \<Rightarrow> [] | Some ms \<Rightarrow> ms);
         formattedMessages = js_sort (compareCreatedAt dateMs) msgs;
         initialMessageCreatedAt =
           (case formattedMessages of [] \<Rightarrow> None | m # _ \<Rightarrow> created_at m);
         s2 = setConversationId (conv_id conversation) s1
     in (Returned (Some (conversation\<lparr>conv_messages :=
            map_option (\<lambda>_. formattedMessages) (conv_messages conversation)\<rparr>)),
         setMessages
           (getDefaultGreeting now (pinnedOverrides initialMessageCreatedAt) s2
            @ formattedMessages) s2))"
  using cid fetched
  by (simp add: fetchLatestConversation_def fetchLatestCustomerConversation_def Let_def)

text \<open>
  Claim C9, as amended.  The customer id resolves and the backend answers with a list of
  conversations whose first has the messages \<open>ms\<close>, not empty.  Then the transcript is the
  output of the greeting policy followed by the messages as the sort by creation time
  leaves them: a permutation of \<open>ms\<close>, which is \<open>ms\<close> in ascending order of creation time
  (a stable sort) whenever every creation time reads as a date.  When the page configures
  no generator of its own, the output of the policy is empty if neither a greeting nor an
  away message is configured or fetched, and otherwise exactly one message of the bot,
  with the away message or the greeting as its body, whose creation and seen timestamps
  are the creation timestamp of the first of the sorted messages; when the page configures
  a generator, the output is what the generator returns for these two overrides.  The
  conversation id is set and the channel of that conversation is joined in the same step.
\<close>

theorem fetchLatestConversation_transcript:
  assumes cid: "js_or (customerId s) fallback = Some cid" "cid \<noteq> []"
    and fetched: "api_fetchCustomerConversations api
        (length (effects (logger_debug ''Fetching conversations for customer:'' s)))
        cid (accountId (config s)) (baseUrl (config s)) = Inr (conversation # older)"
    and msgs: "conv_messages conversation = Some ms" "ms \<noteq> []"
  shows "\<exists>s' greeting' formatted.
     fetchLatestConversation api dateMs now fallback s =
       (Returned (Some (conversation\<lparr>conv_messages := Some formatted\<rparr>)), s') \<and>
     mset formatted = mset ms \<and>
     ((\<forall>m \<in> set ms. dateMs (created_at m) \<noteq> None) \<longrightarrow>
        formatted = sort_key (createdAtMs dateMs) ms \<and>
        sorted (map (createdAtMs dateMs) formatted) \<and>
        (\<forall>m \<in> set ms. createdAtMs dateMs (hd formatted) \<le> createdAtMs dateMs m)) \<and>
     (setInitialMessage (config s) = None \<longrightarrow>
        greeting' =
          (if \<not> truthy (greeting (config s)) \<and> \<not> truthy (ws_greeting (settings s)) \<and>
              \<not> truthy (awayMessage (config s)) \<and> \<not> truthy (away_message (settings s))
           then []
           else [\<lparr>body = greetingBody s, file_ids = None, msg_type = Some Bot,
                  customer_id = Some ''bot'', sent_at = None,
                  created_at = created_at (hd formatted),
                  seen_at = created_at (hd formatted)\<rparr>])) \<and>
     (\<forall>generator. setInitialMessage (config s) = Some generator \<longrightarrow>
        greeting' = generator now (pinnedOverrides (created_at (hd formatted)))) \<and>
     messages s' = greeting' @ formatted \<and>
     conversationId s' = Some (conv_id conversation) \<and>
     (\<exists>c. channel s' = Some c \<and> topic c = ConversationTopic (conv_id conversation) \<and>
          ChannelJoin c \<in> set (effects s'))"
proof -
  let ?f = "js_sort (compareCreatedAt dateMs) ms"
  let ?s1 = "logger_debug ''Found existing conversations:''
               (emit (Request (FetchCustomerConversations cid (accountId (config s))
                  (baseUrl (config s))))
                 (logger_debug ''Fetching conversations for customer:'' s))"
  let ?s2 = "setConversationId (conv_id conversation) ?s1"
  let ?g = "getDefaultGreeting now (pinnedOverrides (created_at (hd ?f))) s"
  let ?s' = "setMessages (?g @ ?f) ?s2"
  have perm: "mset ?f = mset ms"
    by (rule mset_js_sort)
  have ne: "?f \<noteq> []"
  proof
    assume "?f = []"
    then have "mset ms = {#}"
      using perm by simp
    then show False
      using msgs(2) by simp
  qed
  then have initial: "(case ?f of [] \<Rightarrow> None | m # _ \<Rightarrow> created_at m) = created_at (hd ?f)"
    by (cases ?f) simp_all
  have greet: "getDefaultGreeting now (pinnedOverrides (created_at (hd ?f))) ?s2 = ?g"
    by (rule getDefaultGreeting_cong) simp_all
  have result: "fetchLatestConversation api dateMs now fallback s =
       (Returned (Some (conversation\<lparr>conv_messages := Some ?f\<rparr>)), ?s')"
    using msgs(1)
    by (simp add: fetchLatestConversation_found[OF cid fetched] Let_def initial greet)
  have valid: "(\<forall>m \<in> set ms. dateMs (created_at m) \<noteq> None) \<longrightarrow>
        ?f = sort_key (createdAtMs dateMs) ms \<and>
        sorted (map (createdAtMs dateMs) ?f) \<and>
        (\<forall>m \<in> set ms. createdAtMs dateMs (hd ?f) \<le> createdAtMs dateMs m)"
  proof
    assume dates: "\<forall>m \<in> set ms. dateMs (created_at m) \<noteq> None"
    then have eq: "?f = sort_key (createdAtMs dateMs) ms"
      by (rule js_sort_sort_key)
    have "sorted (map (createdAtMs dateMs) (sort_key (createdAtMs dateMs) ms))"
      by (rule sorted_sort_key)
    moreover have "\<forall>m \<in> set ms. createdAtMs dateMs (hd (sort_key (createdAtMs dateMs) ms))
        \<le> createdAtMs dateMs m"
      using msgs(2) hd_sort_key_least[of ms _ "createdAtMs dateMs"] by blast
    ultimately show "?f = sort_key (createdAtMs dateMs) ms \<and>
        sorted (map (createdAtMs dateMs) ?f) \<and>
        (\<forall>m \<in> set ms. createdAtMs dateMs (hd ?f) \<le> createdAtMs dateMs m)"
      unfolding eq by (intro conjI refl)
  qed
  have nogen: "setInitialMessage (config s) = None \<longrightarrow>
        ?g =
          (if \<not> truthy (greeting (config s)) \<and> \<not> truthy (ws_greeting (settings s)) \<and>
              \<not> truthy (awayMessage (config s)) \<and> \<not> truthy (away_message (settings s))
           then []
           else [\<lparr>body = greetingBody s, file_ids = None, msg_type = Some Bot,
                  customer_id = Some ''bot'', sent_at = None,
                  created_at = created_at (hd ?f),
                  seen_at = created_at (hd ?f)\<rparr>])"
    by (simp add: getDefaultGreeting_default spread_pinned)
  have gen: "\<forall>generator. setInitialMessage (config s) = Some generator \<longrightarrow>
        ?g = generator now (pinnedOverrides (created_at (hd ?f)))"
    by (simp add: getDefaultGreeting_generator)
  have msgs': "messages ?s' = ?g @ ?f"
    by (simp add: messages_setMessages)
  have conv': "conversationId ?s' = Some (conv_id conversation)"
    by simp
  have chan: "\<exists>c. channel ?s' = Some c \<and> topic c = ConversationTopic (conv_id conversation) \<and>
          ChannelJoin c \<in> set (effects ?s')"
    by (simp add: setConversationId_effects)
  note parts = result perm valid nogen gen msgs' conv' chan
  show ?thesis
    by (rule exI[of _ ?s'], rule exI[of _ ?g], rule exI[of _ ?f], intro conjI)
       (rule parts)+
qed

theorem fetchLatestConversation_transcript_witness:
  "messages (snd (fetchLatestConversation example_api example_dateMs
      ''2021-03-05T00:00:00.000Z'' None greeting_session)) =
     [\<lparr>body = Some ''Hello!'', file_ids = None, msg_type = Some Bot,
       customer_id = Some ''bot'', sent_at = None,
       created_at = Some ''2021-03-04T05:06:07.000Z'',
       seen_at = Some ''2021-03-04T05:06:07.000Z''\<rparr>,
      hi_message, reply_message] \<and>
   conversationId (snd (fetchLatestConversation example_api example_dateMs
      ''2021-03-05T00:00:00.000Z'' None greeting_session)) = Some ''conversation-1''"
proof -
  let ?cid = "''11111111-1111-1111-1111-111111111111''"
  let ?conversation = "\<lparr>conv_id = ''conversation-1'',
                          conv_messages = Some [reply_message, hi_message]\<rparr>"
  have 1: "js_or (customerId greeting_session) None = Some ?cid"
    by (simp add: greeting_session_def init_def js_or_def truthy_def example_config_def)
  have 2: "?cid \<noteq> []"
    by simp
  have 3: "api_fetchCustomerConversations example_api
        (length (effects (logger_debug ''Fetching conversations for customer:''
           greeting_session)))
        ?cid (accountId (config greeting_session)) (baseUrl (config greeting_session)) =
        Inr (?conversation # [])"
    by (simp add: example_api_def)
  have 4: "conv_messages ?conversation = Some [reply_message, hi_message]"
    by simp
  have 5: "[reply_message, hi_message] \<noteq> []"
    by simp
  have dates: "\<forall>m \<in> set [reply_message, hi_message]. example_dateMs (created_at m) \<noteq> None"
    by (simp add: example_dateMs_def hi_message_def reply_message_def)
  have nogen: "setInitialMessage (config greeting_session) = None"
    by (simp add: greeting_session_def init_def example_config_def)
  have sorted: "sort_key (createdAtMs example_dateMs) [reply_message, hi_message] =
      [hi_message, reply_message]"
    by (simp add: createdAtMs_def example_dateMs_def hi_message_def reply_message_def)
  have configured: "truthy (greeting (config greeting_session))"
    by (simp add: greeting_session_def init_def example_config_def truthy_def)
  have body: "greetingBody greeting_session = Some ''Hello!''"
    by (simp add: greetingBody_def Let_def greeting_session_def init_def example_config_def
        js_or_def truthy_def)
  from fetchLatestConversation_transcript
         [OF 1 2 3 4 5, of example_dateMs "''2021-03-05T00:00:00.000Z''"]
  show ?thesis
  proof (elim exE conjE)
    fix s' g f
    assume r: "fetchLatestConversation example_api example_dateMs
          ''2021-03-05T00:00:00.000Z'' None greeting_session =
        (Returned (Some (?conversation\<lparr>conv_messages := Some f\<rparr>)), s')"
      and v: "(\<forall>m \<in> set [reply_message, hi_message]. example_dateMs (created_at m) \<noteq> None) \<longrightarrow>
        f = sort_key (createdAtMs example_dateMs) [reply_message, hi_message] \<and>
        sorted (map (createdAtMs example_dateMs) f) \<and>
        (\<forall>m \<in> set [reply_message, hi_message].
           createdAtMs example_dateMs (hd f) \<le> createdAtMs example_dateMs m)"
      and n: "setInitialMessage (config greeting_session) = None \<longrightarrow>
        g =
          (if \<not> truthy (greeting (config greeting_session)) \<and>
              \<not> truthy (ws_greeting (settings greeting_session)) \<and>
              \<not> truthy (awayMessage (config greeting_session)) \<and>
              \<not> truthy (away_message (settings greeting_session))
           then []
           else [\<lparr>body = greetingBody greeting_session, file_ids = None, msg_type = Some Bot,
                  customer_id = Some ''bot'', sent_at = None,
                  created_at = created_at (hd f), seen_at = created_at (hd f)\<rparr>])"
      and m: "messages s' = g @ f"
      and c: "conversationId s' = Some (conv_id ?conversation)"
    have r': "snd (fetchLatestConversation example_api example_dateMs
          ''2021-03-05T00:00:00.000Z'' None greeting_session) = s'"
      unfolding r by (rule snd_conv)
    from v dates have "f = sort_key (createdAtMs example_dateMs) [reply_message, hi_message] \<and>
        sorted (map (createdAtMs example_dateMs) f) \<and>
        (\<forall>m \<in> set [reply_message, hi_message].
           createdAtMs example_dateMs (hd f) \<le> createdAtMs example_dateMs m)"
      by (rule mp)
    then have "f = sort_key (createdAtMs example_dateMs) [reply_message, hi_message]"
      by (rule conjunct1)
    then have f: "f = [hi_message, reply_message]"
      unfolding sorted .
    from n nogen have "g =
          (if \<not> truthy (greeting (config greeting_session)) \<and>
              \<not> truthy (ws_greeting (settings greeting_session)) \<and>
              \<not> truthy (awayMessage (config greeting_session)) \<and>
              \<not> truthy (away_message (settings greeting_session))
           then []
           else [\<lparr>body = greetingBody greeting_session, file_ids = None, msg_type = Some Bot,
                  customer_id = Some ''bot'', sent_at = None,
                  created_at = created_at (hd f), seen_at = created_at (hd f)\<rparr>])"
      by (rule mp)
    then have g: "g = [\<lparr>body = Some ''Hello!'', file_ids = None, msg_type = Some Bot,
                  customer_id = Some ''bot'', sent_at = None,
                  created_at = Some ''2021-03-04T05:06:07.000Z'',
                  seen_at = Some ''2021-03-04T05:06:07.000Z''\<rparr>]"
      unfolding f body by (simp add: configured hi_message_def)
    have "messages s' =
       [\<lparr>body = Some ''Hello!'', file_ids = None, msg_type = Some Bot,
         customer_id = Some ''bot'', sent_at = None,
         created_at = Some ''2021-03-04T05:06:07.000Z'',
         seen_at = Some ''2021-03-04T05:06:07.000Z''\<rparr>,
        hi_message, reply_message]"
      unfolding m g f by simp
    with r' c show ?thesis
      by simp
  qed
qed

text \<open>
  With a generator of its own configured, the page decides what precedes the messages: here
  a message created in 2020, not seen, before a conversation whose earliest message was
  created on 2021-03-04.
\<close>

lemma fetchLatestConversation_generator_messages:
  "messages (snd (fetchLatestConversation example_api example_dateMs
      ''2021-03-05T00:00:00.000Z'' None generator_session)) =
     [welcome_message, hi_message, reply_message]"
  by (simp add: fetchLatestConversation_def fetchLatestCustomerConversation_def Let_def
      generator_session_def init_def example_config_def example_api_def js_or_def truthy_def
      getDefaultGreeting_def js_sort_def compareCreatedAt_def example_dateMs_def
      hi_message_def reply_message_def messages_setMessages)

theorem fetchLatestConversation_generator_counterexample:
  "messages (snd (fetchLatestConversation example_api example_dateMs
      ''2021-03-05T00:00:00.000Z'' None generator_session)) =
     [welcome_message, hi_message, reply_message] \<and>
   created_at welcome_message \<noteq> created_at hi_message \<and>
   seen_at welcome_message \<noteq> created_at hi_message"
  by (simp add: fetchLatestConversation_generator_messages)
     (simp add: welcome_message_def hi_message_def)

section \<open>One conversation channel at a time\<close>

lemma single_from_append:
  "single_from js (es @ es') = (single_from js es \<and> single_from (fold track es js) es')"
proof (induction es arbitrary: js)
  case Nil
  then show ?case by (cases es') auto
next
  case (Cons e es)
  then show ?case by simp
qed

lemma single_from_last:
  "single_from js es \<Longrightarrow> length (filter (\<lambda>c. is_conversation (topic c)) (fold track es js)) \<le> 1"
  by (induction es arbitrary: js) auto

lemma single_from_take: "single_from js es \<Longrightarrow> single_from js (take n es)"
proof (induction es arbitrary: js n)
  case Nil
  then show ?case by simp
next
  case (Cons e es)
  then show ?case by (cases n) auto
qed

lemma single_from_prefixes:
  "single_from js es \<longleftrightarrow> (\<forall>n. length (filter (\<lambda>c. is_conversation (topic c)) (fold track (take n es) js)) \<le> 1)"
proof
  assume "single_from js es"
  then show "\<forall>n. length (filter (\<lambda>c. is_conversation (topic c)) (fold track (take n es) js)) \<le> 1"
    using single_from_last single_from_take by blast
next
  assume "\<forall>n. length (filter (\<lambda>c. is_conversation (topic c)) (fold track (take n es) js)) \<le> 1"
  then show "single_from js es"
  proof (induction es arbitrary: js)
    case Nil
    then show ?case by simp
  next
    case (Cons e es)
    have "length (filter (\<lambda>c. is_conversation (topic c)) js) \<le> 1"
      using Cons.prems[rule_format, of 0] by simp
    moreover have "\<forall>n. length (filter (\<lambda>c. is_conversation (topic c)) (fold track (take n es) (track e js))) \<le> 1"
    proof
      fix n
      show "length (filter (\<lambda>c. is_conversation (topic c)) (fold track (take n es) (track e js))) \<le> 1"
        using Cons.prems[rule_format, of "Suc n"] by simp
    qed
    ultimately show ?case
      using Cons.IH by simp
  qed
qed

text \<open>The check along the sequence says the same as the statement about every prefix.\<close>

lemma at_most_one_iff:
  "single_from [] es \<longleftrightarrow> (\<forall>n. length (conversation_channels (take n es)) \<le> 1)"
  by (simp add: single_from_prefixes conversation_channels_def joined_channels_def)


lemma joined_channels_snoc: "joined_channels (es @ [e]) = track e (joined_channels es)"
  by (simp add: joined_channels_def)

lemma single_from_snoc:
  "single_from [] (es @ [e]) =
     (single_from [] es \<and> length (filter (\<lambda>c. is_conversation (topic c)) (track e (joined_channels es))) \<le> 1)"
  using single_from_last[of "[]" es]
  by (auto simp: single_from_append joined_channels_def)

lemma conversation_channels_snoc:
  "conversation_channels (es @ [e]) = filter (\<lambda>c. is_conversation (topic c)) (track e (joined_channels es))"
  by (simp add: conversation_channels_def joined_channels_def)

lemma session_ok_emit_quiet:
  assumes "\<And>js. track e js = js"
  shows "session_ok (emit e s) = session_ok s"
  using single_from_last[of "[]" "effects s"]
  by (auto simp: session_ok_def single_from_snoc conversation_channels_snoc assms
      conversation_channels_def joined_channels_def)

lemma session_ok_emit_simps [simp]:
  "session_ok (emit SocketConnect s) = session_ok s"
  "session_ok (emit SocketDisconnect s) = session_ok s"
  "session_ok (emit (PresenceOnSync c) s) = session_ok s"
  "session_ok (emit (ChannelOn c ev) s) = session_ok s"
  "session_ok (emit (ChannelPush c ev payload) s) = session_ok s"
  "session_ok (emit (Request r) s) = session_ok s"
  "session_ok (emit (Notify cb) s) = session_ok s"
  "session_ok (emit (DispatchEvent ev detail) s) = session_ok s"
  "session_ok (emit (StorageSetCustomerId cid) s) = session_ok s"
  "session_ok (emit StorageRemoveCustomerId s) = session_ok s"
  "session_ok (emit (Log lv msg) s) = session_ok s"
  by (simp_all add: session_ok_emit_quiet)

lemma session_ok_logger [simp]:
  "session_ok (logger_debug msg s) = session_ok s"
  "session_ok (logger_warn msg s) = session_ok s"
  "session_ok (logger_error msg s) = session_ok s"
  by (simp_all add: logger_debug_def logger_warn_def logger_error_def)

lemma session_ok_update [simp]:
  "session_ok (s\<lparr>messages := msgs\<rparr>) = session_ok s"
  "session_ok (s\<lparr>customerId := cid\<rparr>) = session_ok s"
  "session_ok (s\<lparr>conversationId := conv\<rparr>) = session_ok s"
  "session_ok (s\<lparr>next_handle := h\<rparr>) = session_ok s"
  "session_ok (s\<lparr>settings := st\<rparr>) = session_ok s"
  by (simp_all add: session_ok_def)

lemma session_ok_leave:
  assumes "session_ok s"
  shows "session_ok (emit (ChannelLeave c) s)"
proof -
  have "length (filter (\<lambda>c. is_conversation (topic c)) (removeAll c js)) \<le> length (filter (\<lambda>c. is_conversation (topic c)) js)" for js
    by (induction js) auto
  then have "length (filter (\<lambda>c. is_conversation (topic c)) (removeAll c (joined_channels (effects s)))) \<le> 1"
    using assms single_from_last[of "[]" "effects s"]
    by (fastforce simp: session_ok_def joined_channels_def intro: order_trans)
  then show ?thesis
    using assms
    by (auto simp: session_ok_def single_from_snoc conversation_channels_def
        joined_channels_snoc)
qed

lemma session_ok_join_other:
  assumes "session_ok s" and "\<not> is_conversation (topic c)"
  shows "session_ok (emit (ChannelJoin c) s)"
  using assms single_from_last[of "[]" "effects s"]
  by (auto simp: session_ok_def single_from_snoc conversation_channels_snoc
      conversation_channels_def joined_channels_def)

text \<open>Once the channel that the session holds is left, no conversation channel is joined.\<close>

lemma left_idle:
  assumes "session_ok s" and "channel s = Some c"
  shows "conversation_channels (effects s @ [ChannelLeave c]) = []"
proof -
  have "set (conversation_channels (effects s)) \<subseteq> {c}"
    using assms by (simp add: session_ok_def)
  then have "filter (\<lambda>c. is_conversation (topic c)) (removeAll c (joined_channels (effects s))) = []"
    by (auto simp: conversation_channels_def filter_empty_conv)
  then show ?thesis
    by (simp add: conversation_channels_snoc)
qed

lemma none_idle:
  assumes "session_ok s" and "channel s = None"
  shows "conversation_channels (effects s) = []"
  using assms by (simp add: session_ok_def)

lemma join_when_idle:
  assumes single: "single_from [] es"
    and idle: "conversation_channels es = []"
    and conv: "is_conversation (topic c')"
    and quiet: "\<And>e js. e \<in> set qs \<Longrightarrow> track e js = js"
  shows "single_from [] (es @ qs @ [ChannelJoin c']) \<and>
         conversation_channels (es @ qs @ [ChannelJoin c']) = [c']"
proof -
  have fold_qs: "fold track qs js = js" for js
    using quiet by (induction qs arbitrary: js) auto
  have single_qs: "single_from js qs = (length (filter (\<lambda>c. is_conversation (topic c)) js) \<le> 1)" for js
    using quiet by (induction qs arbitrary: js) auto
  have notin: "c' \<notin> set (joined_channels es)"
  proof
    assume "c' \<in> set (joined_channels es)"
    then have "c' \<in> set (conversation_channels es)"
      using conv by (simp add: conversation_channels_def)
    then show False
      using idle by simp
  qed
  have idle': "filter (\<lambda>c. is_conversation (topic c)) (joined_channels es) = []"
    using idle by (simp add: conversation_channels_def)
  show ?thesis
    using single notin conv idle'
    by (simp add: single_from_append fold_qs single_qs conversation_channels_def
        joined_channels_def)
qed


lemma session_ok_joinConversationChannel:
  assumes ok: "session_ok s"
  shows "session_ok (joinConversationChannel conv fb s)"
proof -
  let ?c' = "\<lparr>handle = next_handle s, topic = ConversationTopic conv,
               param_customer_id = js_or (customerId s) fb\<rparr>"
  let ?qs = "(if debugModeEnabled s then [Log Debug ''Joining channel:''] else []) @
             [ChannelOn ?c' ''shout'']"
  have quiet: "\<And>e js. e \<in> set ?qs \<Longrightarrow> track e js = js"
    by (auto split: if_splits)
  have conv: "is_conversation (topic ?c')"
    by simp
  obtain es where es: "effects (joinConversationChannel conv fb s) = es @ ?qs @ [ChannelJoin ?c']"
    and single: "single_from [] es" and idle: "conversation_channels es = []"
  proof (cases "channel s")
    case None
    show ?thesis
    proof (rule that[of "effects s"])
      show "effects (joinConversationChannel conv fb s) = effects s @ ?qs @ [ChannelJoin ?c']"
        using None by (simp add: joinConversationChannel_effects)
      show "single_from [] (effects s)"
        using ok by (simp add: session_ok_def)
      show "conversation_channels (effects s) = []"
        using ok None by (rule none_idle)
    qed
  next
    case (Some c)
    show ?thesis
    proof (rule that[of "effects s @ [ChannelLeave c]"])
      show "effects (joinConversationChannel conv fb s) =
              (effects s @ [ChannelLeave c]) @ ?qs @ [ChannelJoin ?c']"
        using Some by (simp add: joinConversationChannel_effects)
      show "single_from [] (effects s @ [ChannelLeave c])"
        using session_ok_leave[OF ok, of c] by (simp add: session_ok_def)
      show "conversation_channels (effects s @ [ChannelLeave c]) = []"
        using ok Some by (rule left_idle)
    qed
  qed
  from join_when_idle[OF single idle conv quiet]
  have "single_from [] (es @ ?qs @ [ChannelJoin ?c'])"
    and "conversation_channels (es @ ?qs @ [ChannelJoin ?c']) = [?c']"
    by blast+
  then show ?thesis
    unfolding session_ok_def es by simp
qed

lemma session_ok_setMessages [simp]: "session_ok (setMessages msgs s) = session_ok s"
  by (simp add: setMessages_def Let_def)

lemma session_ok_setWidgetSettings [simp]:
  "session_ok (setWidgetSettings st s) = session_ok s"
  by (simp add: setWidgetSettings_def Let_def)

lemma session_ok_connect: "session_ok s \<Longrightarrow> session_ok (connect s)"
  by (simp add: connect_def listenForAgentAvailability_def Let_def session_ok_join_other)

lemma session_ok_fetchWidgetSettings [simp]:
  "session_ok (snd (fetchWidgetSettings api s)) = session_ok s"
  by (simp add: fetchWidgetSettings_def Let_def)

lemma session_ok_setCustomerId [simp]: "session_ok (setCustomerId cid s) = session_ok s"
  by (simp add: setCustomerId_def cacheCustomerId_def Let_def split: option.splits)

lemma session_ok_setConversationId:
  "session_ok s \<Longrightarrow> session_ok (setConversationId conv s)"
  by (simp add: setConversationId_def Let_def session_ok_joinConversationChannel)

lemma session_ok_disconnect: "session_ok s \<Longrightarrow> session_ok (disconnect s)"
  by (simp add: disconnect_def Let_def session_ok_leave split: option.splits)

lemma session_ok_listenForNewConversations:
  "session_ok s \<Longrightarrow> session_ok (listenForNewConversations cid s)"
  by (simp add: listenForNewConversations_def Let_def session_ok_join_other)

lemma session_ok_requests [simp]:
  "session_ok (snd (createNewConversation api cid s)) = session_ok s"
  "session_ok (snd (updateCustomerMetadata api cid metadata s)) = session_ok s"
  "session_ok (snd (createNewCustomer api metadata s)) = session_ok s"
  "session_ok (snd (isValidCustomer api cid s)) = session_ok s"
  "session_ok (snd (findCustomerByExternalId api ext filters s)) = session_ok s"
  by (simp_all add: createNewConversation_def updateCustomerMetadata_def createNewCustomer_def
      isValidCustomer_def findCustomerByExternalId_def)

lemma session_ok_fetchLatestCustomerConversation [simp]:
  "session_ok (snd (fetchLatestCustomerConversation api cid s)) = session_ok s"
  by (simp add: fetchLatestCustomerConversation_def Let_def split: sum.splits)

lemma snd_eqD: "f = (a, b) \<Longrightarrow> snd f = b"
  by simp

lemma session_ok_createOrUpdateCustomer [simp]:
  "session_ok (snd (createOrUpdateCustomer api existing metadata s)) = session_ok s"
proof -
  obtain r s1 where first: "(case existing of
              None \<Rightarrow> createNewCustomer api metadata s
            | Some c \<Rightarrow>
                if c = [] then createNewCustomer api metadata s
                else updateCustomerMetadata api c metadata s) = (r, s1)"
    by (cases "case existing of
              None \<Rightarrow> createNewCustomer api metadata s
            | Some c \<Rightarrow>
                if c = [] then createNewCustomer api metadata s
                else updateCustomerMetadata api c metadata s") auto
  have "session_ok (snd (case existing of
              None \<Rightarrow> createNewCustomer api metadata s
            | Some c \<Rightarrow>
                if c = [] then createNewCustomer api metadata s
                else updateCustomerMetadata api c metadata s)) = session_ok s"
    by (simp split: option.splits)
  then have s1: "session_ok s1 = session_ok s"
    by (simp add: first)
  show ?thesis
    unfolding createOrUpdateCustomer_def first
    by (cases r) (simp_all add: s1)
qed

lemma session_ok_initializeNewConversation:
  assumes "session_ok s"
  shows "session_ok (snd (initializeNewConversation api existing mail s))"
proof -
  let ?cust = "case customer (config s) of
                 None \<Rightarrow> \<lparr>external_id = None, email = None, host = None\<rparr>
               | Some c \<Rightarrow> c"
  let ?metadata = "if truthy mail then ?cust\<lparr>email := mail\<rparr> else ?cust"
  obtain r s1 where c: "createOrUpdateCustomer api existing ?metadata s = (r, s1)"
    by (cases "createOrUpdateCustomer api existing ?metadata s") auto
  then have s1: "session_ok s1"
    using assms session_ok_createOrUpdateCustomer[of api existing ?metadata s] by simp
  show ?thesis
  proof (cases r)
    case (Inl err)
    then show ?thesis
      using c s1 by (simp add: initializeNewConversation_def Let_def)
  next
    case (Inr cid)
    obtain r2 s2 where n: "createNewConversation api cid s1 = (r2, s2)"
      by (cases "createNewConversation api cid s1") auto
    then have s2: "session_ok s2"
      using s1 session_ok_requests(1)[of api cid s1] by simp
    show ?thesis
      using c Inr n s2
      by (cases r2) (simp_all add: initializeNewConversation_def Let_def
          session_ok_setConversationId)
  qed
qed

lemma session_ok_isValidCustomerId:
  "session_ok s \<Longrightarrow> session_ok (snd (isValidCustomerId isValidUuid api cid s))"
proof -
  assume ok: "session_ok s"
  have "session_ok s1" if "isValidCustomer api c s = (r, s1)" for c r s1
    using ok session_ok_requests(4)[of api c s] that by simp
  then show ?thesis
    using ok
    by (auto simp: isValidCustomerId_def split: option.splits sum.splits prod.splits)
qed

lemma session_ok_checkForExistingCustomer:
  "session_ok s \<Longrightarrow> session_ok (snd (checkForExistingCustomer api metadata dflt s))"
proof -
  assume ok: "session_ok s"
  have "session_ok (snd (findCustomerByExternalId api ext filters s))" for ext filters
    using ok by simp
  then have "session_ok (snd (findCustomerByMetadata api metadata s))"
    using ok by (simp add: findCustomerByMetadata_def split: option.splits)
  then show ?thesis
    using ok
    by (auto simp: checkForExistingCustomer_def split: option.splits sum.splits prod.splits)
qed

lemma session_ok_markMessagesAsSeen:
  "session_ok s \<Longrightarrow> session_ok (markMessagesAsSeen clock s)"
  by (simp add: markMessagesAsSeen_def Let_def split: option.splits)

lemma session_ok_handleMessageCreated [simp]:
  "session_ok (handleMessageCreated datesEqual message s) = session_ok s"
  by (simp add: handleMessageCreated_def Let_def)

lemma session_ok_onShout: "session_ok s \<Longrightarrow> session_ok (onShout datesEqual message s)"
  by (simp add: onShout_def Let_def)


lemma session_ok_sendNewMessage:
  assumes ok: "session_ok s"
  shows "session_ok (snd (sendNewMessage api sentAt message mail s))"
proof -
  let ?body = "case body message of None \<Rightarrow> [] | Some b \<Rightarrow> b"
  let ?files = "case file_ids message of None \<Rightarrow> [] | Some f \<Rightarrow> f"
  let ?payload = "message\<lparr>body := Some ?body, customer_id := customerId s,
                    msg_type := Some Customer, sent_at := Some sentAt\<rparr>"
  let ?s1 = "setMessages (messages s @ [?payload]) s"
  let ?init = "if \<not> truthy (customerId s) \<or> \<not> truthy (conversationId s)
               then initializeNewConversation api (customerId s) mail ?s1 else (Inr (), ?s1)"
  obtain r s2 where init: "?init = (r, s2)"
    by (cases ?init) auto
  have "session_ok (snd ?init)"
    using ok by (simp add: session_ok_initializeNewConversation)
  then have s2: "session_ok s2"
    by (simp only: init snd_conv)
  show ?thesis
  proof (cases "(?body = [] \<or> length (trim ?body) = 0) \<and> length ?files = 0")
    case True
    then show ?thesis
      using ok by (simp add: sendNewMessage_def Let_def)
  next
    case False
    have "snd (sendNewMessage api sentAt message mail s) =
        snd (case ?init of
               (Inl err, s2) \<Rightarrow> (Inl err, s2)
             | (Inr _, s2) \<Rightarrow>
                 (Inr (),
                  case channel s2 of
                    None \<Rightarrow> s2
                  | Some c \<Rightarrow>
                      emit (ChannelPush c ''shout''
                        (Some (message\<lparr>body := Some ?body, customer_id := customerId s2,
                                 sent_at := Some sentAt\<rparr>))) s2))"
      using False unfolding sendNewMessage_def Let_def by (simp only: if_False)
    also have "session_ok \<dots>"
      unfolding init using s2 by (cases r) (simp_all split: option.splits)
    finally show ?thesis .
  qed
qed

lemma session_ok_fetchLatestConversation:
  assumes ok: "session_ok s"
  shows "session_ok (snd (fetchLatestConversation api dateMs now fallback s))"
proof (cases "truthy (js_or (customerId s) fallback)")
  case False
  then show ?thesis
    using ok
    by (auto simp: fetchLatestConversation_def truthy_def split: option.splits)
next
  case True
  then obtain cid where cid: "js_or (customerId s) fallback = Some cid" "cid \<noteq> []"
    by (auto simp: truthy_def split: option.splits)
  let ?s0 = "logger_debug ''Fetching conversations for customer:'' s"
  obtain r s1 where f: "fetchLatestCustomerConversation api cid ?s0 = (r, s1)"
    by (cases "fetchLatestCustomerConversation api cid ?s0") auto
  have "session_ok (snd (fetchLatestCustomerConversation api cid ?s0))"
    using ok by simp
  then have s1: "session_ok s1"
    by (simp only: f snd_conv)
  show ?thesis
  proof (cases r)
    case (Inl err)
    then show ?thesis
      using cid f s1 by (simp add: fetchLatestConversation_def)
  next
    case (Inr found)
    show ?thesis
    proof (cases found)
      case None
      then show ?thesis
        using cid f s1 Inr
        by (simp add: fetchLatestConversation_def session_ok_listenForNewConversations)
    next
      case (Some conversation)
      then show ?thesis
        using cid f s1 Inr
        by (simp add: fetchLatestConversation_def Let_def session_ok_setConversationId)
    qed
  qed
qed

lemma session_ok_start:
  assumes ok: "session_ok s"
  shows "session_ok (snd (start isValidUuid api dateMs now s))"
proof -
  let ?s1 = "connect s"
  obtain st s2 where w: "fetchWidgetSettings api ?s1 = (st, s2)"
    by (cases "fetchWidgetSettings api ?s1") auto
  obtain isValid s3 where v: "isValidCustomerId isValidUuid api (customerId s2) s2 = (isValid, s3)"
    by (cases "isValidCustomerId isValidUuid api (customerId s2) s2") auto
  let ?validated = "if isValid then customerId s3 else None"
  let ?metadata = "case customer (config s3) of
                     None \<Rightarrow> \<lparr>external_id = None, email = None, host = None\<rparr>
                   | Some c \<Rightarrow> c"
  obtain r s4 where c: "checkForExistingCustomer api (Some ?metadata) ?validated s3 = (r, s4)"
    by (cases "checkForExistingCustomer api (Some ?metadata) ?validated s3") auto
  have "session_ok (snd (fetchWidgetSettings api ?s1))"
    using ok by (simp add: session_ok_connect)
  then have s2: "session_ok s2"
    by (simp only: w snd_conv)
  have "session_ok (snd (isValidCustomerId isValidUuid api (customerId s2) s2))"
    using s2 by (rule session_ok_isValidCustomerId)
  then have s3: "session_ok s3"
    by (simp only: v snd_conv)
  have "session_ok (snd (checkForExistingCustomer api (Some ?metadata) ?validated s3))"
    using s3 by (rule session_ok_checkForExistingCustomer)
  then have s4: "session_ok s4"
    by (simp only: c snd_conv)
  have unfolded: "start isValidUuid api dateMs now s =
      (case (r, s4) of
         (Inl err, s4) \<Rightarrow> (Inl err, s4)
       | (Inr cid, s4) \<Rightarrow>
           (case fetchLatestConversation api dateMs now cid
                   (setCustomerId cid (setWidgetSettings st s4)) of
              (r, s5) \<Rightarrow> (Inr r, s5)))"
    by (simp only: start_def Let_def w v c prod.case)
  show ?thesis
  proof (cases r)
    case (Inl err)
    then show ?thesis
      using s4 by (simp add: unfolded)
  next
    case (Inr cid)
    have "session_ok (snd (fetchLatestConversation api dateMs now cid
        (setCustomerId cid (setWidgetSettings st s4))))"
      using s4 by (simp add: session_ok_fetchLatestConversation)
    then show ?thesis
      using Inr by (auto simp: unfolded split: prod.splits)
  qed
qed

lemma session_ok_init: "session_ok (init isDev cached cfg)"
  by (simp add: session_ok_def init_def conversation_channels_def joined_channels_def)

text \<open>Every session satisfies the invariant.\<close>

lemma session_session_ok: "session s \<Longrightarrow> session_ok s"
proof (induction rule: session.induct)
  case (session_init isDev cached cfg)
  show ?case by (rule session_ok_init)
next
  case (session_start s isValidUuid api dateMs now)
  then show ?case by (simp add: session_ok_start)
next
  case (session_connect s)
  then show ?case by (simp add: session_ok_connect)
next
  case (session_setWidgetSettings s st)
  then show ?case by simp
next
  case (session_setMessages s msgs)
  then show ?case by simp
next
  case (session_setCustomerId s cid)
  then show ?case by simp
next
  case (session_setConversationId s conv)
  then show ?case by (simp add: session_ok_setConversationId)
next
  case (session_disconnect s)
  then show ?case by (simp add: session_ok_disconnect)
next
  case (session_listenForNewConversations s cid)
  then show ?case by (simp add: session_ok_listenForNewConversations)
next
  case (session_initializeNewConversation s api existing mail)
  then show ?case by (simp add: session_ok_initializeNewConversation)
next
  case (session_isValidCustomerId s isValidUuid api cid')
  then show ?case by (simp add: session_ok_isValidCustomerId)
next
  case (session_checkForExistingCustomer s api metadata dflt)
  then show ?case by (simp add: session_ok_checkForExistingCustomer)
next
  case (session_markMessagesAsSeen s clock)
  then show ?case by (simp add: session_ok_markMessagesAsSeen)
next
  case (session_sendNewMessage s api sentAt message mail)
  then show ?case by (simp add: session_ok_sendNewMessage)
next
  case (session_onShout s datesEqual message)
  then show ?case by (simp add: session_ok_onShout)
next
  case (session_fetchLatestConversation s api dateMs now fallback)
  then show ?case by (simp add: session_ok_fetchLatestConversation)
qed

lemma session_fold_setConversationId:
  "session s \<Longrightarrow> session (fold setConversationId convs s)"
  by (induction convs arbitrary: s) (auto intro: session.session_setConversationId)

text \<open>
  Claim C7.  In every session, and after every further sequence of calls of
  \<open>setConversationId\<close>, at most one conversation channel is joined at every point of the
  sequence of effects.  A call of \<open>setConversationId\<close> first leaves the channel that the
  session holds, if it holds one, and joins the channel of the new conversation after
  that.
\<close>

theorem single_conversation_channel:
  assumes "session s"
  shows "(\<forall>n. length (conversation_channels
            (take n (effects (fold setConversationId convs s)))) \<le> 1) \<and>
         effects (setConversationId conv s) =
           effects s @
           (case channel s of None \<Rightarrow> [] | Some c \<Rightarrow> [ChannelLeave c]) @
           (if debugModeEnabled s then [Log Debug ''Joining channel:''] else []) @
           [ChannelOn \<lparr>handle = next_handle s, topic = ConversationTopic conv,
                       param_customer_id = js_or (customerId s) None\<rparr> ''shout'',
            ChannelJoin \<lparr>handle = next_handle s, topic = ConversationTopic conv,
                         param_customer_id = js_or (customerId s) None\<rparr>] @
           (if onSetConversationId (config s) then [Notify (OnSetConversationId conv)] else [])"
proof -
  have "session_ok (fold setConversationId convs s)"
    using assms by (intro session_session_ok session_fold_setConversationId)
  then have "\<forall>n. length (conversation_channels
            (take n (effects (fold setConversationId convs s)))) \<le> 1"
    by (simp add: session_ok_def at_most_one_iff)
  then show ?thesis
    by (simp add: setConversationId_effects)
qed

theorem single_conversation_channel_witness:
  "session example_session \<and>
   (\<forall>n. length (conversation_channels (take n (effects
      (fold setConversationId [''conversation-1'', ''conversation-2''] example_session)))) \<le> 1) \<and>
   effects (setConversationId ''conversation-2''
      (setConversationId ''conversation-1'' example_session)) =
     [ChannelOn \<lparr>handle = 0, topic = ConversationTopic ''conversation-1'',
                 param_customer_id = None\<rparr> ''shout'',
      ChannelJoin \<lparr>handle = 0, topic = ConversationTopic ''conversation-1'',
                   param_customer_id = None\<rparr>,
      ChannelLeave \<lparr>handle = 0, topic = ConversationTopic ''conversation-1'',
                    param_customer_id = None\<rparr>,
      ChannelOn \<lparr>handle = 1, topic = ConversationTopic ''conversation-2'',
                 param_customer_id = None\<rparr> ''shout'',
      ChannelJoin \<lparr>handle = 1, topic = ConversationTopic ''conversation-2'',
                   param_customer_id = None\<rparr>]"
proof -
  have s0: "session example_session"
    unfolding example_session_def by (rule session_init)
  have s1: "session (setConversationId ''conversation-1'' example_session)"
    using s0 by (rule session_setConversationId)
  have fields:
    "channel example_session = None" "debugModeEnabled example_session = False"
    "onSetConversationId (config example_session) = False"
    "effects example_session = []" "next_handle example_session = 0"
    "customerId example_session = None"
    by (simp_all add: example_session_def init_def example_config_def js_or_def truthy_def)
  have prefixes: "\<forall>n. length (conversation_channels (take n (effects
      (fold setConversationId [''conversation-1'', ''conversation-2''] example_session)))) \<le> 1"
    using single_conversation_channel
        [OF s0, of "[''conversation-1'', ''conversation-2'']" "''conversation-1''"]
    by (rule conjunct1)
  have first: "effects (setConversationId ''conversation-1'' example_session) =
     [ChannelOn \<lparr>handle = 0, topic = ConversationTopic ''conversation-1'',
                 param_customer_id = None\<rparr> ''shout'',
      ChannelJoin \<lparr>handle = 0, topic = ConversationTopic ''conversation-1'',
                   param_customer_id = None\<rparr>]"
    using single_conversation_channel [OF s0, of "[]" "''conversation-1''"]
    by (simp add: fields js_or_def truthy_def)
  have second: "effects (setConversationId ''conversation-2''
      (setConversationId ''conversation-1'' example_session)) =
     effects (setConversationId ''conversation-1'' example_session) @
     [ChannelLeave \<lparr>handle = 0, topic = ConversationTopic ''conversation-1'',
                    param_customer_id = None\<rparr>,
      ChannelOn \<lparr>handle = 1, topic = ConversationTopic ''conversation-2'',
                 param_customer_id = None\<rparr> ''shout'',
      ChannelJoin \<lparr>handle = 1, topic = ConversationTopic ''conversation-2'',
                   param_customer_id = None\<rparr>]"
    using single_conversation_channel [OF s1, of "[]" "''conversation-2''"]
    by (simp add: fields js_or_def truthy_def)
  show ?thesis
    using s0 prefixes second unfolding first by simp
qed

end
